theory Spec2Isabelle
  imports Complex_Main "HOL-Library.AList" "HOL-Library.Sublist"
begin

section \<open>JavaScript values\<close>

text \<open>
  The values the test file handles: request payloads built as object literals and response
  bodies parsed from JSON. An object is its list of own properties in insertion order;
  a number is its exact decimal value.
\<close>

datatype jsval =
    JUndefined
  | JNull
  | JBool bool
  | JNum rat
  | JStr string
  | JArr "jsval list"
  | JObj "(string \<times> jsval) list"

text \<open>Reading an own property of an object; \<open>None\<close> when the value has no such property.\<close>

fun obj_get :: "jsval \<Rightarrow> string \<Rightarrow> jsval option" where
  "obj_get (JObj fs) k = map_of fs k"
| "obj_get _ k = None"

text \<open>
  Object spread \<^verbatim>\<open>{ ...base, ...overrides }\<close>: every own property of \<open>overrides\<close> is
  assigned in turn; an existing key keeps its position and takes the new value, a new key
  is appended.
\<close>

definition spread :: "(string \<times> jsval) list \<Rightarrow> (string \<times> jsval) list \<Rightarrow> (string \<times> jsval) list" where
  "spread base ov = fold (\<lambda>(k, v). AList.update k v) ov base"

section \<open>Numbers in template literals\<close>

fun show_nat :: "nat \<Rightarrow> string" where
  "show_nat n =
     (if n < 10 then [char_of (48 + n)]
      else show_nat (n div 10) @ [char_of (48 + n mod 10)])"

declare show_nat.simps [simp del]

definition show_int :: "int \<Rightarrow> string" where
  "show_int i = (if i < 0 then CHR ''-'' # show_nat (nat (- i)) else show_nat (nat i))"

section \<open>The helpers of the test file\<close>

definition API_BASE :: string where
  "API_BASE = ''/people''"

text \<open>
  \<^verbatim>\<open>uniqueName(prefix)\<close> is \<^verbatim>\<open>`${prefix}-${Date.now()}-${Math.floor(Math.random() * 1e6)}`\<close>.
  The two readings of the environment are arguments: \<open>now\<close> is the integer \<^verbatim>\<open>Date.now()\<close>
  returns and \<open>rnd\<close> is the integer \<^verbatim>\<open>Math.floor(Math.random() * 1e6)\<close> yields (between
  0 and 999999). Every call in the file passes a prefix, so the default \<^verbatim>\<open>'cypress'\<close> is
  never used.
\<close>

definition uniqueName :: "string \<Rightarrow> int \<Rightarrow> nat \<Rightarrow> string" where
  "uniqueName pfx now rnd = pfx @ ''-'' @ show_int now @ ''-'' @ show_nat rnd"

text \<open>
  \<^verbatim>\<open>makeTitanicPerson(overrides = {})\<close>: the object literal with the eight columns, then the
  spread of \<open>overrides\<close>. The argument is the property list of the overrides object; a call
  without argument is the call with \<open>[]\<close>.
\<close>

definition makeTitanicPerson :: "(string \<times> jsval) list \<Rightarrow> int \<Rightarrow> nat \<Rightarrow> jsval" where
  "makeTitanicPerson overrides now rnd =
     JObj (spread
       [(''survived'', JNum 1),
        (''pclass'', JNum 3),
        (''name'', JStr (uniqueName ''person'' now rnd)),
        (''sex'', JStr ''male''),
        (''age'', JNum 30),
        (''siblings_spouses_abroad'', JNum 0),
        (''parents_children_abroad'', JNum 0),
        (''fare'', JNum 7.25)]
       overrides)"

section \<open>The runner configuration\<close>

record retries_config =
  runMode :: nat
  openMode :: nat

record e2e_config =
  baseUrl :: string
  specPattern :: string
  supportFile :: string
  video :: bool
  retries :: retries_config

record cypress_config =
  e2e :: e2e_config

text \<open>The object \<^verbatim>\<open>cypress.config.js\<close> exports (\<^verbatim>\<open>defineConfig\<close> returns its argument).\<close>

definition config :: cypress_config where
  "config =
     \<lparr>e2e =
        \<lparr>baseUrl = ''http://localhost:3000'',
         specPattern = ''cypress/e2e/**/*.cy.{js,jsx,ts,tsx}'',
         supportFile = ''cypress/support/e2e.js'',
         video = False,
         retries = \<lparr>runMode = 1, openMode = 0\<rparr>\<rparr>\<rparr>"

text \<open>
  The two ways the runner is started: \<^verbatim>\<open>cypress run\<close> and \<^verbatim>\<open>cypress open\<close>. The number of
  times a failed test is run again is the entry of \<open>retries\<close> for the mode.
\<close>

datatype runner_mode = Run | Open

fun retry_limit :: "cypress_config \<Rightarrow> runner_mode \<Rightarrow> nat" where
  "retry_limit c Run = runMode (retries (e2e c))"
| "retry_limit c Open = openMode (retries (e2e c))"

section \<open>Conversions the test file relies on\<close>

text \<open>
  A number in a template literal. Numbers are exact decimals here; a fraction is written
  with at most 17 digits after the point and exponent notation is not produced.
\<close>

fun frac_digits :: "nat \<Rightarrow> nat \<Rightarrow> nat \<Rightarrow> string" where
  "frac_digits 0 r d = []"
| "frac_digits (Suc fuel) r d =
     (if r = 0 then []
      else char_of (48 + (10 * r) div d) # frac_digits fuel ((10 * r) mod d) d)"

definition show_rat :: "rat \<Rightarrow> string" where
  "show_rat q =
     (let (n, d) = quotient_of q;
          a = nat \<bar>n\<bar>;
          r = a mod nat d
      in (if n < 0 then ''-'' else []) @ show_nat (a div nat d)
         @ (if r = 0 then [] else CHR ''.'' # frac_digits 17 r (nat d)))"

fun to_string :: "jsval \<Rightarrow> string"
  and join_elems :: "jsval list \<Rightarrow> string" where
  "to_string JUndefined = ''undefined''"
| "to_string JNull = ''null''"
| "to_string (JBool b) = (if b then ''true'' else ''false'')"
| "to_string (JNum q) = show_rat q"
| "to_string (JStr s) = s"
| "to_string (JArr xs) = join_elems xs"
| "to_string (JObj fs) = ''[object Object]''"
| "join_elems [] = []"
| "join_elems (x # xs) =
     (case x of JUndefined \<Rightarrow> [] | JNull \<Rightarrow> [] | _ \<Rightarrow> to_string x)
     @ (if xs = [] then [] else CHR '','' # join_elems xs)"

text \<open>Truthiness, as \<^verbatim>\<open>if (res.body)\<close> reads it.\<close>

fun truthy :: "jsval \<Rightarrow> bool" where
  "truthy JUndefined = False"
| "truthy JNull = False"
| "truthy (JBool b) = b"
| "truthy (JNum q) = (q \<noteq> 0)"
| "truthy (JStr s) = (s \<noteq> [])"
| "truthy (JArr xs) = True"
| "truthy (JObj fs) = True"

text \<open>
  Strict equality \<^verbatim>\<open>===\<close>, which chai's \<^verbatim>\<open>eq\<close> uses: primitives compare by value. The test
  file compares values taken from two different response bodies, so an array or an object
  is never the same reference as the other operand.
\<close>

fun strict_eq :: "jsval \<Rightarrow> jsval \<Rightarrow> bool" where
  "strict_eq JUndefined b = (b = JUndefined)"
| "strict_eq JNull b = (b = JNull)"
| "strict_eq (JBool x) b = (b = JBool x)"
| "strict_eq (JNum x) b = (b = JNum x)"
| "strict_eq (JStr x) b = (b = JStr x)"
| "strict_eq (JArr xs) b = False"
| "strict_eq (JObj fs) b = False"

section \<open>Assertions and verdicts\<close>

text \<open>
  A test ends at its first failure: a chai assertion that throws, a \<^verbatim>\<open>TypeError\<close> of the
  language, or a \<^verbatim>\<open>cy.request\<close> that fails on the status code.
\<close>

datatype failure = AssertionError | TypeError | StatusCodeError

type_synonym verdict = "failure + unit"

definition expect :: "bool \<Rightarrow> verdict" where
  "expect b = (if b then Inr () else Inl AssertionError)"

definition and_then :: "verdict \<Rightarrow> verdict \<Rightarrow> verdict" where
  "and_then c rest = (case c of Inl e \<Rightarrow> Inl e | Inr _ \<Rightarrow> rest)"

fun checks :: "verdict list \<Rightarrow> verdict" where
  "checks [] = Inr ()"
| "checks (c # cs) = and_then c (checks cs)"

definition passes :: "verdict \<Rightarrow> bool" where
  "passes v = (v = Inr ())"

text \<open>chai's \<^verbatim>\<open>to.be.an('object')\<close>, \<^verbatim>\<open>to.be.an('array')\<close> and \<^verbatim>\<open>to.be.a('string')\<close>.\<close>

fun is_object :: "jsval \<Rightarrow> bool" where
  "is_object (JObj fs) = True"
| "is_object _ = False"

fun is_array :: "jsval \<Rightarrow> bool" where
  "is_array (JArr xs) = True"
| "is_array _ = False"

fun is_string :: "jsval \<Rightarrow> bool" where
  "is_string (JStr s) = True"
| "is_string _ = False"

text \<open>
  \<^verbatim>\<open>o.k\<close> on a value that is neither \<^verbatim>\<open>null\<close> nor \<^verbatim>\<open>undefined\<close>: the property, or
  \<^verbatim>\<open>undefined\<close> when there is none (the keys read here are \<open>rows\<close> and \<open>uuid\<close>, which no
  prototype provides).
\<close>

definition get_prop :: "jsval \<Rightarrow> string \<Rightarrow> jsval" where
  "get_prop v k = (case obj_get v k of Some x \<Rightarrow> x | None \<Rightarrow> JUndefined)"

text \<open>chai's \<^verbatim>\<open>to.have.property(k)\<close>; it throws on \<^verbatim>\<open>null\<close> and \<^verbatim>\<open>undefined\<close> as well.\<close>

definition has_property :: "jsval \<Rightarrow> string \<Rightarrow> bool" where
  "has_property v k = (obj_get v k \<noteq> None)"

definition assertPgResultShape :: "jsval \<Rightarrow> verdict" where
  "assertPgResultShape resBody =
     checks
       [expect (is_object resBody),
        expect (has_property resBody ''rows''),
        expect (is_array (get_prop resBody ''rows''))]"

text \<open>
  \<^verbatim>\<open>resBody.rows\<close> as a list; every use follows \<open>assertPgResultShape\<close>, which has
  established that it is an array.
\<close>

definition rows :: "jsval \<Rightarrow> jsval list" where
  "rows resBody = (case get_prop resBody ''rows'' of JArr xs \<Rightarrow> xs | _ \<Rightarrow> [])"

text \<open>
  \<^verbatim>\<open>createRes.body.rows[0]?.uuid\<close>: \<^verbatim>\<open>undefined\<close> when there is no first row, when it is
  \<^verbatim>\<open>null\<close>, and when it has no \<open>uuid\<close>.
\<close>

definition first_row_uuid :: "jsval \<Rightarrow> jsval" where
  "first_row_uuid resBody = (case rows resBody of [] \<Rightarrow> JUndefined | r # _ \<Rightarrow> get_prop r ''uuid'')"

section \<open>Requests\<close>

record http_request =
  req_method :: string
  req_url :: string
  req_headers :: "(string \<times> string) list"
  req_body :: jsval

record response =
  status :: nat
  headers :: "(string \<times> string) list"
  body :: jsval

text \<open>
  The service under test is not part of the repository: a server is any function from a
  request and its own state to a response and the next state.
\<close>

type_synonym 'st server = "http_request \<Rightarrow> 'st \<Rightarrow> response \<times> 'st"

text \<open>
  \<^verbatim>\<open>cy.request(...).then(callback)\<close>. With \<^verbatim>\<open>failOnStatusCode\<close> (the default) the command
  fails on a status other than 2xx and 3xx; otherwise the callback runs on the response and
  further requests reach the server in the state the exchange left.
\<close>

definition cy_request ::
    "'st server \<Rightarrow> bool \<Rightarrow> http_request \<Rightarrow> 'st \<Rightarrow> (response \<Rightarrow> 'st \<Rightarrow> verdict) \<Rightarrow> verdict" where
  "cy_request srv failOnStatusCode req st callback =
     (case srv req st of
        (res, st') \<Rightarrow>
          if failOnStatusCode \<and> \<not> (200 \<le> status res \<and> status res \<le> 399)
          then Inl StatusCodeError
          else callback res st')"

definition GET :: "string \<Rightarrow> http_request" where
  "GET u = \<lparr>req_method = ''GET'', req_url = u, req_headers = [], req_body = JUndefined\<rparr>"

definition POST :: "string \<Rightarrow> jsval \<Rightarrow> http_request" where
  "POST u b = \<lparr>req_method = ''POST'', req_url = u, req_headers = [], req_body = b\<rparr>"

definition PUT :: "string \<Rightarrow> jsval \<Rightarrow> http_request" where
  "PUT u b = \<lparr>req_method = ''PUT'', req_url = u, req_headers = [], req_body = b\<rparr>"

definition DELETE :: "string \<Rightarrow> http_request" where
  "DELETE u = \<lparr>req_method = ''DELETE'', req_url = u, req_headers = [], req_body = JUndefined\<rparr>"

text \<open>\<^verbatim>\<open>`${API_BASE}/${uuid}`\<close>\<close>

definition person_url :: "jsval \<Rightarrow> string" where
  "person_url uuid = API_BASE @ ''/'' @ to_string uuid"

definition nil_uuid :: string where
  "nil_uuid = ''00000000-0000-0000-0000-000000000000''"

text \<open>
  \<^verbatim>\<open>expect(res.headers['content-type']).to.include('application/json')\<close>; the names in
  \<^verbatim>\<open>res.headers\<close> are in lower case, and the assertion throws when the header is absent.
\<close>

definition content_type_is_json :: "response \<Rightarrow> verdict" where
  "content_type_is_json res =
     (case map_of (headers res) ''content-type'' of
        None \<Rightarrow> Inl AssertionError
      | Some v \<Rightarrow> expect (sublist ''application/json'' v))"

section \<open>The tests of the People API suite\<close>

text \<open>
  Each test is a function of the server, the state the server is in when the test starts,
  and the readings \<open>now\<close>, \<open>rnd\<close> that \<open>uniqueName\<close> takes from the environment. A test
  whose first statement draws \<^verbatim>\<open>payload = makeTitanicPerson()\<close> is split there: the rest of
  its body is the function \<open>\<dots>_with\<close> of the payload. The update test draws a second
  payload and the update test for the nil UUID builds its request body; they are split at
  these values in the same way.
\<close>

subsection \<open>\<^verbatim>\<open>GET /people\<close>\<close>

definition returns_200_and_JSON :: "'st server \<Rightarrow> 'st \<Rightarrow> verdict" where
  "returns_200_and_JSON srv st =
     cy_request srv False (GET API_BASE) st (\<lambda>res _.
       checks [expect (status res = 200), content_type_is_json res])"

definition returns_an_array_response :: "'st server \<Rightarrow> 'st \<Rightarrow> verdict" where
  "returns_an_array_response srv st =
     cy_request srv True (GET API_BASE) st (\<lambda>res _.
       checks [expect (status res = 200), assertPgResultShape (body res)])"

definition each_item_has_a_uuid_field :: "'st server \<Rightarrow> 'st \<Rightarrow> verdict" where
  "each_item_has_a_uuid_field srv st =
     cy_request srv True (GET API_BASE) st (\<lambda>res _.
       checks
         [expect (status res = 200),
          assertPgResultShape (body res),
          (case rows (body res) of
             [] \<Rightarrow> Inr ()
           | r # _ \<Rightarrow> expect (has_property r ''uuid''))])"

subsection \<open>\<^verbatim>\<open>POST /people\<close>\<close>

definition creates_a_person_and_returns_inserted_rows_with ::
    "jsval \<Rightarrow> 'st server \<Rightarrow> 'st \<Rightarrow> verdict" where
  "creates_a_person_and_returns_inserted_rows_with payload srv st =
     cy_request srv False (POST API_BASE payload) st (\<lambda>res _.
       checks
         [expect (status res \<in> set [200, 201]),
          content_type_is_json res,
          assertPgResultShape (body res),
          expect (length (rows (body res)) > 0)])"

definition creates_a_person_and_returns_inserted_rows ::
    "int \<Rightarrow> nat \<Rightarrow> 'st server \<Rightarrow> 'st \<Rightarrow> verdict" where
  "creates_a_person_and_returns_inserted_rows now rnd =
     creates_a_person_and_returns_inserted_rows_with (makeTitanicPerson [] now rnd)"

definition handles_missing_body_gracefully :: "'st server \<Rightarrow> 'st \<Rightarrow> verdict" where
  "handles_missing_body_gracefully srv st =
     cy_request srv False (POST API_BASE (JObj [])) st (\<lambda>res _.
       expect (status res \<in> set [200, 400, 422]))"

definition handles_invalid_payload_types :: "int \<Rightarrow> nat \<Rightarrow> 'st server \<Rightarrow> 'st \<Rightarrow> verdict" where
  "handles_invalid_payload_types now rnd srv st =
     cy_request srv False
       \<lparr>req_method = ''POST'', req_url = API_BASE,
        req_headers = [(''content-type'', ''application/json'')],
        req_body = makeTitanicPerson [(''name'', JNum 12345)] now rnd\<rparr>
       st (\<lambda>res _. expect (status res \<in> set [200, 400, 422]))"

subsection \<open>\<^verbatim>\<open>GET /people/:uuid\<close>\<close>

definition returns_200_for_an_existing_uuid_with ::
    "jsval \<Rightarrow> 'st server \<Rightarrow> 'st \<Rightarrow> verdict" where
  "returns_200_for_an_existing_uuid_with payload srv st =
     cy_request srv True (POST API_BASE payload) st (\<lambda>createRes st1.
       and_then (assertPgResultShape (body createRes))
         (let uuid = first_row_uuid (body createRes) in
          and_then (expect (is_string uuid))
            (cy_request srv True (GET (person_url uuid)) st1 (\<lambda>res _.
               checks
                 [expect (status res = 200),
                  content_type_is_json res,
                  assertPgResultShape (body res)]))))"

definition returns_200_for_an_existing_uuid ::
    "int \<Rightarrow> nat \<Rightarrow> 'st server \<Rightarrow> 'st \<Rightarrow> verdict" where
  "returns_200_for_an_existing_uuid now rnd =
     returns_200_for_an_existing_uuid_with (makeTitanicPerson [] now rnd)"

text \<open>
  \<^verbatim>\<open>'uuid' in res.body.rows[0]\<close> throws a \<^verbatim>\<open>TypeError\<close> when the row is not an object; an
  array has no such key.
\<close>

definition requested_uuid_check :: "jsval \<Rightarrow> jsval \<Rightarrow> verdict" where
  "requested_uuid_check resBody uuid =
     (case rows resBody of
        [] \<Rightarrow> Inr ()
      | r # _ \<Rightarrow>
          (case r of
             JObj fs \<Rightarrow>
               if has_property r ''uuid'' then expect (strict_eq (get_prop r ''uuid'') uuid)
               else Inr ()
           | JArr xs \<Rightarrow> Inr ()
           | _ \<Rightarrow> Inl TypeError))"

definition returns_rows_for_the_requested_uuid_with ::
    "jsval \<Rightarrow> 'st server \<Rightarrow> 'st \<Rightarrow> verdict" where
  "returns_rows_for_the_requested_uuid_with payload srv st =
     cy_request srv True (POST API_BASE payload) st (\<lambda>createRes st1.
       and_then (assertPgResultShape (body createRes))
         (let uuid = first_row_uuid (body createRes) in
          cy_request srv True (GET (person_url uuid)) st1 (\<lambda>res _.
            checks
              [expect (status res = 200),
               assertPgResultShape (body res),
               requested_uuid_check (body res) uuid])))"

definition returns_rows_for_the_requested_uuid ::
    "int \<Rightarrow> nat \<Rightarrow> 'st server \<Rightarrow> 'st \<Rightarrow> verdict" where
  "returns_rows_for_the_requested_uuid now rnd =
     returns_rows_for_the_requested_uuid_with (makeTitanicPerson [] now rnd)"

definition returns_4xx_for_a_non_existing_uuid :: "'st server \<Rightarrow> 'st \<Rightarrow> verdict" where
  "returns_4xx_for_a_non_existing_uuid srv st =
     cy_request srv False (GET (API_BASE @ ''/'' @ nil_uuid)) st (\<lambda>res _.
       expect (400 \<le> status res \<and> status res \<le> 499))"

subsection \<open>\<^verbatim>\<open>PUT /people/:uuid\<close>\<close>

text \<open>
  The update test draws a second payload, \<^verbatim>\<open>makeTitanicPerson({ name:
  uniqueName('put-updated') })\<close>; its readings are \<open>now'\<close>, \<open>rnd'\<close> (the readings of the
  default name it overrides do not show in the result).
\<close>

definition updates_an_existing_person_and_returns_200_with ::
    "jsval \<Rightarrow> jsval \<Rightarrow> 'st server \<Rightarrow> 'st \<Rightarrow> verdict" where
  "updates_an_existing_person_and_returns_200_with payload updated srv st =
     cy_request srv True (POST API_BASE payload) st (\<lambda>createRes st1.
       and_then (assertPgResultShape (body createRes))
         (let uuid = first_row_uuid (body createRes) in
          cy_request srv False (PUT (person_url uuid) updated) st1 (\<lambda>res _.
            checks
              [expect (status res = 200),
               content_type_is_json res,
               (if truthy (body res) then assertPgResultShape (body res) else Inr ())])))"

definition updates_an_existing_person_and_returns_200 ::
    "int \<Rightarrow> nat \<Rightarrow> int \<Rightarrow> nat \<Rightarrow> 'st server \<Rightarrow> 'st \<Rightarrow> verdict" where
  "updates_an_existing_person_and_returns_200 now rnd now' rnd' =
     updates_an_existing_person_and_returns_200_with
       (makeTitanicPerson [] now rnd)
       (makeTitanicPerson [(''name'', JStr (uniqueName ''put-updated'' now' rnd'))] now' rnd')"

definition rejects_update_for_non_existing_uuid_with ::
    "jsval \<Rightarrow> 'st server \<Rightarrow> 'st \<Rightarrow> verdict" where
  "rejects_update_for_non_existing_uuid_with reqBody srv st =
     cy_request srv False (PUT (API_BASE @ ''/'' @ nil_uuid) reqBody) st (\<lambda>res _.
       expect (400 \<le> status res \<and> status res \<le> 499))"

definition rejects_update_for_non_existing_uuid ::
    "int \<Rightarrow> nat \<Rightarrow> 'st server \<Rightarrow> 'st \<Rightarrow> verdict" where
  "rejects_update_for_non_existing_uuid now rnd =
     rejects_update_for_non_existing_uuid_with
       (JObj [(''name'', JStr (uniqueName ''missing'' now rnd))])"

definition handles_invalid_update_payload_with ::
    "jsval \<Rightarrow> int \<Rightarrow> nat \<Rightarrow> 'st server \<Rightarrow> 'st \<Rightarrow> verdict" where
  "handles_invalid_update_payload_with payload now' rnd' srv st =
     cy_request srv True (POST API_BASE payload) st (\<lambda>createRes st1.
       and_then (assertPgResultShape (body createRes))
         (let uuid = first_row_uuid (body createRes) in
          cy_request srv False
            (PUT (person_url uuid) (makeTitanicPerson [(''name'', JNum 999)] now' rnd'))
            st1 (\<lambda>res _. expect (status res \<in> set [200, 400, 422]))))"

definition handles_invalid_update_payload ::
    "int \<Rightarrow> nat \<Rightarrow> int \<Rightarrow> nat \<Rightarrow> 'st server \<Rightarrow> 'st \<Rightarrow> verdict" where
  "handles_invalid_update_payload now rnd =
     handles_invalid_update_payload_with (makeTitanicPerson [] now rnd)"

subsection \<open>\<^verbatim>\<open>DELETE /people/:uuid\<close>\<close>

definition deletes_an_existing_person_with :: "jsval \<Rightarrow> 'st server \<Rightarrow> 'st \<Rightarrow> verdict" where
  "deletes_an_existing_person_with payload srv st =
     cy_request srv True (POST API_BASE payload) st (\<lambda>createRes st1.
       and_then (assertPgResultShape (body createRes))
         (let uuid = first_row_uuid (body createRes) in
          cy_request srv False (DELETE (person_url uuid)) st1 (\<lambda>res _.
            expect (status res \<in> set [200, 204]))))"

definition deletes_an_existing_person :: "int \<Rightarrow> nat \<Rightarrow> 'st server \<Rightarrow> 'st \<Rightarrow> verdict" where
  "deletes_an_existing_person now rnd =
     deletes_an_existing_person_with (makeTitanicPerson [] now rnd)"

definition subsequent_GET_after_delete_with :: "jsval \<Rightarrow> 'st server \<Rightarrow> 'st \<Rightarrow> verdict" where
  "subsequent_GET_after_delete_with payload srv st =
     cy_request srv True (POST API_BASE payload) st (\<lambda>createRes st1.
       and_then (assertPgResultShape (body createRes))
         (let uuid = first_row_uuid (body createRes) in
          cy_request srv True (DELETE (person_url uuid)) st1 (\<lambda>_ st2.
            cy_request srv False (GET (person_url uuid)) st2 (\<lambda>res _.
              expect (400 \<le> status res \<and> status res \<le> 499)))))"

definition subsequent_GET_after_delete :: "int \<Rightarrow> nat \<Rightarrow> 'st server \<Rightarrow> 'st \<Rightarrow> verdict" where
  "subsequent_GET_after_delete now rnd =
     subsequent_GET_after_delete_with (makeTitanicPerson [] now rnd)"

definition deleting_a_non_existing_uuid :: "'st server \<Rightarrow> 'st \<Rightarrow> verdict" where
  "deleting_a_non_existing_uuid srv st =
     cy_request srv False (DELETE (API_BASE @ ''/'' @ nil_uuid)) st (\<lambda>res _.
       expect (status res \<in> set [200, 204, 404]))"

section \<open>The people service\<close>

text \<open>
  Modelled from the spec: the service behind \<^verbatim>\<open>/people\<close> (its routes, its validation and
  its store; the test file names \<^verbatim>\<open>models/people_model.js\<close>) is not among the sources.
  The definitions of this section follow sections 3, 4.1, 6 and 7 of the specification.
  Where the specification leaves the service a choice, the choice is a field of
  \<open>implementation\<close>, so that a statement about \<open>service impl\<close> holds for every service the
  specification admits.
\<close>

datatype field_type = TInteger | TNumeric | TString

text \<open>Modelled from the spec: the attributes of a Person other than \<open>uuid\<close> (section 3).\<close>

definition columns :: "(string \<times> field_type) list" where
  "columns =
     [(''survived'', TInteger),
      (''pclass'', TInteger),
      (''name'', TString),
      (''sex'', TString),
      (''age'', TNumeric),
      (''siblings_spouses_abroad'', TInteger),
      (''parents_children_abroad'', TInteger),
      (''fare'', TNumeric)]"

text \<open>
  Modelled from the spec: a number that is an integer, as the integer attributes require.
\<close>

definition is_integer :: "rat \<Rightarrow> bool" where
  "is_integer q = (of_int \<lfloor>q\<rfloor> = q)"

text \<open>
  Modelled from the spec: a value is compatible with a semantic type (section 4.1); a
  number is not a string and a string is not a number.
\<close>

fun has_type :: "field_type \<Rightarrow> jsval \<Rightarrow> bool" where
  "has_type TInteger (JNum q) = is_integer q"
| "has_type TNumeric (JNum q) = True"
| "has_type TString (JStr s) = True"
| "has_type _ _ = False"

text \<open>
  Modelled from the spec: validation (section 4.1). Every provided field has a type
  compatible with its semantic type; a create body holds all eight fields, an update body
  may be partial. A body that is not an object fails both.
\<close>

definition well_typed :: "(string \<times> jsval) list \<Rightarrow> bool" where
  "well_typed fs =
     list_all (\<lambda>(k, t). case map_of fs k of None \<Rightarrow> True | Some v \<Rightarrow> has_type t v) columns"

text \<open>
  Modelled from the spec: a create body is expected to contain all Person fields except
  \<open>uuid\<close>.
\<close>

definition complete :: "(string \<times> jsval) list \<Rightarrow> bool" where
  "complete fs = list_all (\<lambda>(k, t). map_of fs k \<noteq> None) columns"

text \<open>
  Modelled from the spec: a create body passes validation when it is an object, complete
  and well typed; the empty object and a body with a wrong-typed field fail.
\<close>

fun valid_create :: "jsval \<Rightarrow> bool" where
  "valid_create (JObj fs) = (complete fs \<and> well_typed fs)"
| "valid_create _ = False"

text \<open>
  Modelled from the spec: an update body is a full or partial Person body whose provided
  fields are well typed.
\<close>

fun valid_update :: "jsval \<Rightarrow> bool" where
  "valid_update (JObj fs) = well_typed fs"
| "valid_update _ = False"

text \<open>
  Modelled from the spec: the stored fields of a new record are the eight columns of the
  body (a \<open>uuid\<close> or any other key a client sends is not stored), and an update overwrites
  the fields the body supplies.
\<close>

definition new_fields :: "(string \<times> jsval) list \<Rightarrow> (string \<times> jsval) list" where
  "new_fields fs = map (\<lambda>(k, t). (k, get_prop (JObj fs) k)) columns"

text \<open>
  Modelled from the spec: on update the fields of the addressed record are overwritten by
  the supplied values.
\<close>

definition overwrite :: "(string \<times> jsval) list \<Rightarrow> (string \<times> jsval) list \<Rightarrow> (string \<times> jsval) list" where
  "overwrite old fs = map (\<lambda>(k, v). (k, case map_of fs k of None \<Rightarrow> v | Some v' \<Rightarrow> v')) old"

text \<open>
  Modelled from the spec: the fields a request body supplies.
\<close>

fun fields_of :: "jsval \<Rightarrow> (string \<times> jsval) list" where
  "fields_of (JObj fs) = fs"
| "fields_of _ = []"

text \<open>
  Modelled from the spec: identifier generation. The \<open>n\<close>-th identifier the store issues
  is a counter written in the layout of a UUID; all that is used of it is that two
  identifiers differ and that none is the nil UUID.
\<close>

definition uuid_of_nat :: "nat \<Rightarrow> string" where
  "uuid_of_nat n =
     ''00000000-0000-4000-8000-'' @ replicate (12 - length (show_nat n)) CHR ''0'' @ show_nat n"

text \<open>
  Modelled from the spec: the store (section 3) holds the present records in the order of
  their creation, each under its \<open>uuid\<close>, and the number of identifiers issued so far.
\<close>

record store =
  people :: "(string \<times> (string \<times> jsval) list) list"
  issued :: nat

text \<open>
  Modelled from the spec: the store before any request.
\<close>

definition empty_store :: store where
  "empty_store = \<lparr>people = [], issued = 0\<rparr>"

text \<open>
  Modelled from the spec: a successful create answers 200 or 201.
\<close>

datatype create_choice = Create200 | Create201

text \<open>
  Modelled from the spec: a validation failure is answered with 400 or 422, or with 200
  and a null result.
\<close>

datatype invalid_choice = Invalid200Null | Invalid400 | Invalid422

text \<open>
  Modelled from the spec: a successful delete answers 200 or 204.
\<close>

datatype delete_choice = Delete200 | Delete204

text \<open>
  Modelled from the spec: deleting an identifier without record is treated as idempotent
  success or answered with 404.
\<close>

datatype delete_missing_choice = DeleteIdempotent | Delete404

text \<open>
  Modelled from the spec: one choice for each point section 4.1 leaves open; the two
  numbers select the client error for a read and for an update of an identifier without
  record, and the flag says whether an update result lists the updated row.
\<close>

record implementation =
  on_create :: create_choice
  on_invalid_create :: invalid_choice
  on_invalid_update :: invalid_choice
  on_delete :: delete_choice
  on_delete_missing :: delete_missing_choice
  on_read_missing :: nat
  on_update_missing :: nat
  update_returns_row :: bool

text \<open>Modelled from the spec: a client error is any status of the band 400 to 499.\<close>

definition client_error :: "nat \<Rightarrow> nat" where
  "client_error n = 400 + n mod 100"

text \<open>
  Modelled from the spec: the response envelope (section 4.1), the shape of a relational
  query result: \<open>rows\<close> and, as permitted metadata, \<open>rowCount\<close>.
\<close>

definition envelope :: "jsval list \<Rightarrow> nat \<Rightarrow> jsval" where
  "envelope rs n = JObj [(''rows'', JArr rs), (''rowCount'', JNum (of_nat n))]"

text \<open>
  Modelled from the spec: a returned record carries its \<open>uuid\<close> and its
  fields.
\<close>

definition row :: "string \<Rightarrow> (string \<times> jsval) list \<Rightarrow> jsval" where
  "row u fs = JObj ((''uuid'', JStr u) # fs)"

text \<open>
  Modelled from the spec: every response that carries a body has the content type
  \<open>application/json\<close>.
\<close>

definition json_response :: "nat \<Rightarrow> jsval \<Rightarrow> response" where
  "json_response code b =
     \<lparr>status = code,
      headers = [(''content-type'', ''application/json; charset=utf-8'')],
      body = b\<rparr>"

text \<open>
  Modelled from the spec: the JSON error body of a failure (section 7).
\<close>

definition error_body :: "string \<Rightarrow> jsval" where
  "error_body msg = JObj [(''error'', JStr msg)]"

text \<open>
  Modelled from the spec: the answer to a validation failure under each choice.
\<close>

fun invalid_response :: "invalid_choice \<Rightarrow> response" where
  "invalid_response Invalid200Null = json_response 200 JNull"
| "invalid_response Invalid400 = json_response 400 (error_body ''validation failed'')"
| "invalid_response Invalid422 = json_response 422 (error_body ''validation failed'')"

text \<open>
  Modelled from the spec: the answer to a delete that succeeds under each choice.
\<close>

fun deleted_response :: "delete_choice \<Rightarrow> response" where
  "deleted_response Delete200 = json_response 200 (envelope [] 1)"
| "deleted_response Delete204 = \<lparr>status = 204, headers = [], body = JNull\<rparr>"

text \<open>
  Modelled from the spec: List answers 200 with all present records, in every state of the
  store.
\<close>

definition list_people :: "store \<Rightarrow> response \<times> store" where
  "list_people st =
     (json_response 200
        (envelope (map (\<lambda>(u, fs). row u fs) (people st)) (length (people st))),
      st)"

text \<open>
  Modelled from the spec: Create persists one new record under a fresh
  \<open>uuid\<close> and returns it; a validation failure persists nothing.
\<close>

definition create_person :: "implementation \<Rightarrow> jsval \<Rightarrow> store \<Rightarrow> response \<times> store" where
  "create_person impl b st =
     (if valid_create b then
        (let u = uuid_of_nat (Suc (issued st));
             fs = new_fields (fields_of b)
         in (json_response (case on_create impl of Create200 \<Rightarrow> 200 | Create201 \<Rightarrow> 201)
               (envelope [row u fs] 1),
             \<lparr>people = people st @ [(u, fs)], issued = Suc (issued st)\<rparr>))
      else (invalid_response (on_invalid_create impl), st))"

text \<open>
  Modelled from the spec: Read by id answers 200 with the present record, and a client
  error when no present record has the \<open>uuid\<close>.
\<close>

definition read_person :: "implementation \<Rightarrow> string \<Rightarrow> store \<Rightarrow> response \<times> store" where
  "read_person impl u st =
     (case map_of (people st) u of
        None \<Rightarrow>
          (json_response (client_error (on_read_missing impl)) (error_body ''not found''), st)
      | Some fs \<Rightarrow> (json_response 200 (envelope [row u fs] 1), st))"

text \<open>
  Modelled from the spec: Update by id answers a client error when no present record has
  the \<open>uuid\<close>; otherwise a well-typed body overwrites the fields and is
  answered with 200, and an invalid body changes nothing.
\<close>

definition update_person ::
    "implementation \<Rightarrow> string \<Rightarrow> jsval \<Rightarrow> store \<Rightarrow> response \<times> store" where
  "update_person impl u b st =
     (case map_of (people st) u of
        None \<Rightarrow>
          (json_response (client_error (on_update_missing impl)) (error_body ''not found''), st)
      | Some old \<Rightarrow>
          if valid_update b then
            (let fs = overwrite old (fields_of b)
             in (json_response 200
                   (envelope (if update_returns_row impl then [row u fs] else []) 1),
                 \<lparr>people = map (\<lambda>(u', fs'). if u' = u then (u', fs) else (u', fs')) (people st),
                  issued = issued st\<rparr>))
          else (invalid_response (on_invalid_update impl), st))"

text \<open>
  Modelled from the spec: Delete by id removes the present record; an identifier without
  record changes nothing.
\<close>

definition delete_person :: "implementation \<Rightarrow> string \<Rightarrow> store \<Rightarrow> response \<times> store" where
  "delete_person impl u st =
     (case map_of (people st) u of
        None \<Rightarrow>
          (case on_delete_missing impl of
             DeleteIdempotent \<Rightarrow> (deleted_response (on_delete impl), st)
           | Delete404 \<Rightarrow> (json_response 404 (error_body ''not found''), st))
      | Some fs \<Rightarrow>
          (deleted_response (on_delete impl),
           \<lparr>people = filter (\<lambda>(u', fs'). u' \<noteq> u) (people st), issued = issued st\<rparr>))"

text \<open>
  Modelled from the spec: the two paths of the HTTP surface (section 6).
\<close>

datatype route = People | Person string | NoRoute

text \<open>
  Modelled from the spec: \<open>/people\<close> is the collection and
  \<open>/people/:uuid\<close> a record; the path parameter is any string.
\<close>

definition route_of :: "string \<Rightarrow> route" where
  "route_of u =
     (if u = API_BASE then People
      else if prefix (API_BASE @ ''/'') u then Person (drop (length API_BASE + 1) u)
      else NoRoute)"

text \<open>
  Modelled from the spec: the five operations by method and path (section 6); any other
  request is answered with a client error and changes nothing.
\<close>

definition service :: "implementation \<Rightarrow> store server" where
  "service impl req st =
     (case route_of (req_url req) of
        People \<Rightarrow>
          if req_method req = ''GET'' then list_people st
          else if req_method req = ''POST'' then create_person impl (req_body req) st
          else (json_response 405 (error_body ''method not allowed''), st)
      | Person u \<Rightarrow>
          if req_method req = ''GET'' then read_person impl u st
          else if req_method req = ''PUT'' then update_person impl u (req_body req) st
          else if req_method req = ''DELETE'' then delete_person impl u st
          else (json_response 405 (error_body ''method not allowed''), st)
      | NoRoute \<Rightarrow> (json_response 404 (error_body ''not found''), st))"

text \<open>The state any server is in after a sequence of requests.\<close>

definition run :: "'st server \<Rightarrow> http_request list \<Rightarrow> 'st \<Rightarrow> 'st" where
  "run srv reqs st = fold (\<lambda>req s. snd (srv req s)) reqs st"

text \<open>
  Modelled from the spec: one service of the family, used where a concrete server is
  needed.
\<close>

definition impl0 :: implementation where
  "impl0 =
     \<lparr>on_create = Create201, on_invalid_create = Invalid400, on_invalid_update = Invalid200Null,
      on_delete = Delete204, on_delete_missing = Delete404,
      on_read_missing = 4, on_update_missing = 4, update_returns_row = False\<rparr>"

section \<open>Example servers\<close>

text \<open>
  A server that answers every \<^verbatim>\<open>POST\<close> with a created row and every \<^verbatim>\<open>PUT\<close> with
  status 200 and the JSON document \<^verbatim>\<open>false\<close>.
\<close>

definition false_update_server :: "unit server" where
  "false_update_server req st =
     (if req_method req = ''POST'' then
        (\<lparr>status = 201,
          headers = [(''content-type'', ''application/json'')],
          body = JObj [(''rows'', JArr [JObj [(''uuid'', JStr ''7d444840-9dc0-11d1-b245-5ffdce74fad2'')]])]\<rparr>,
         st)
      else if req_method req = ''PUT'' then
        (\<lparr>status = 200, headers = [(''content-type'', ''application/json'')], body = JBool False\<rparr>, st)
      else (\<lparr>status = 404, headers = [], body = JNull\<rparr>, st))"

text \<open>
  A server that answers every request with 404, except a \<^verbatim>\<open>PUT\<close> whose body has no string
  \<open>name\<close>, which it answers with 500.
\<close>

definition name_only_update_server :: "unit server" where
  "name_only_update_server req st =
     (if req_method req = ''PUT'' \<and> \<not> is_string (get_prop (req_body req) ''name'') then
        (\<lparr>status = 500, headers = [(''content-type'', ''application/json'')],
          body = JObj [(''error'', JStr ''name is not a string'')]\<rparr>, st)
      else
        (\<lparr>status = 404, headers = [(''content-type'', ''application/json'')],
          body = JObj [(''error'', JStr ''not found'')]\<rparr>, st))"

section \<open>Properties of the helpers\<close>

lemma map_of_spread: "map_of (spread base ov) = map_of base ++ map_of (rev ov)"
proof (induction ov arbitrary: base)
  case Nil
  show ?case by (simp add: spread_def)
next
  case (Cons p ov)
  obtain k v where p: "p = (k, v)" by (cases p)
  have step: "spread base (p # ov) = spread (AList.update k v base) ov"
    by (simp add: spread_def p)
  have "map_of (spread base (p # ov)) = (map_of base)(k \<mapsto> v) ++ map_of (rev ov)"
    unfolding step by (simp only: Cons.IH update_conv')
  also have "\<dots> = map_of base ++ map_of (rev (p # ov))"
    by (rule ext) (simp add: p map_add_def split: option.splits)
  finally show ?case .
qed

lemma map_of_rev_distinct: "distinct (map fst xs) \<Longrightarrow> map_of (rev xs) = map_of xs"
proof (induction xs)
  case Nil
  show ?case by simp
next
  case (Cons p xs)
  obtain k v where p: "p = (k, v)" by (cases p)
  from Cons.prems have fresh: "k \<notin> fst ` set xs" and d: "distinct (map fst xs)"
    by (simp_all add: p)
  from fresh have none: "map_of xs k = None"
    by (simp add: map_of_eq_None_iff)
  show ?case
    by (rule ext) (simp add: p Cons.IH [OF d] map_add_def none split: option.splits)
qed

lemma obj_get_makeTitanicPerson:
  "obj_get (makeTitanicPerson ov now rnd) k =
     (case map_of (rev ov) k of
        Some v \<Rightarrow> Some v
      | None \<Rightarrow>
          map_of
            [(''survived'', JNum 1),
             (''pclass'', JNum 3),
             (''name'', JStr (uniqueName ''person'' now rnd)),
             (''sex'', JStr ''male''),
             (''age'', JNum 30),
             (''siblings_spouses_abroad'', JNum 0),
             (''parents_children_abroad'', JNum 0),
             (''fare'', JNum 7.25)] k)"
  unfolding makeTitanicPerson_def obj_get.simps map_of_spread map_add_def
  by (rule refl)

section \<open>Verdicts\<close>

lemma passes_expect [simp]: "passes (expect b) = b"
  by (simp add: passes_def expect_def)

lemma passes_Inl [simp]: "\<not> passes (Inl e)"
  by (simp add: passes_def)

lemma passes_Inr [simp]: "passes (Inr u)"
  by (simp add: passes_def)

lemma passes_and_then [simp]: "passes (and_then c rest) = (passes c \<and> passes rest)"
  by (cases c) (simp_all add: and_then_def)

lemma passes_checks_Nil [simp]: "passes (checks [])"
  by simp

lemma passes_checks_Cons [simp]: "passes (checks (c # cs)) = (passes c \<and> passes (checks cs))"
  by simp

lemma passes_cy_request:
  "passes (cy_request srv fosc req st callback) =
     ((fosc \<longrightarrow> 200 \<le> status (fst (srv req st)) \<and> status (fst (srv req st)) \<le> 399)
      \<and> passes (callback (fst (srv req st)) (snd (srv req st))))"
  by (cases "srv req st") (auto simp: cy_request_def)

lemma passes_assertPgResultShape:
  "passes (assertPgResultShape b) = (\<exists>fs rs. b = JObj fs \<and> map_of fs ''rows'' = Some (JArr rs))"
proof (cases b)
  case (JObj fs)
  show ?thesis
  proof (cases "map_of fs ''rows''")
    case None
    with JObj show ?thesis
      by (simp add: assertPgResultShape_def has_property_def)
  next
    case (Some v)
    with JObj show ?thesis
      by (cases v) (simp_all add: assertPgResultShape_def has_property_def get_prop_def)
  qed
qed (simp_all add: assertPgResultShape_def)

lemma rows_envelope: "map_of fs ''rows'' = Some (JArr rs) \<Longrightarrow> rows (JObj fs) = rs"
  by (simp add: rows_def get_prop_def)

lemma strict_eq_eq: "strict_eq a b \<Longrightarrow> a = b"
  by (cases a) simp_all

lemma passes_requested_uuid_check:
  "passes (requested_uuid_check b uuid) \<Longrightarrow> rows b = r # rest \<Longrightarrow> obj_get r ''uuid'' = Some v
     \<Longrightarrow> v = uuid"
  by (cases r) (auto simp: requested_uuid_check_def has_property_def get_prop_def
      dest: strict_eq_eq split: if_splits)

lemma person_url_any: "person_url v = ''/people/'' @ to_string v"
  by (simp add: person_url_def API_BASE_def)

lemma first_row_uuid_string:
  assumes "passes (assertPgResultShape b)" and "first_row_uuid b = JStr u"
  shows "\<exists>fs r rest. b = JObj fs \<and> map_of fs ''rows'' = Some (JArr (r # rest))
           \<and> obj_get r ''uuid'' = Some (JStr u)"
proof -
  from assms(1) obtain fs rs where b: "b = JObj fs" and rs: "map_of fs ''rows'' = Some (JArr rs)"
    unfolding passes_assertPgResultShape by blast
  have rows_b: "rows b = rs"
    unfolding b using rs by (rule rows_envelope)
  from assms(2) rows_b obtain r rest where c: "rs = r # rest" and g: "get_prop r ''uuid'' = JStr u"
    by (cases rs) (simp_all add: first_row_uuid_def)
  from g have "obj_get r ''uuid'' = Some (JStr u)"
    by (cases "obj_get r ''uuid''") (simp_all add: get_prop_def)
  with b rs c show ?thesis by blast
qed

lemma invalid_name_payload:
  "makeTitanicPerson [(''name'', v)] now rnd =
     JObj [(''survived'', JNum 1), (''pclass'', JNum 3), (''name'', v), (''sex'', JStr ''male''),
           (''age'', JNum 30), (''siblings_spouses_abroad'', JNum 0),
           (''parents_children_abroad'', JNum 0), (''fare'', JNum 7.25)]"
  by (simp add: makeTitanicPerson_def spread_def)


section \<open>What the suite demands of any server\<close>

lemma suite_GET_after_delete:
  assumes "passes (subsequent_GET_after_delete_with payload srv st)"
  shows "let created = srv (POST ''/people'' payload) st;
             uuid = first_row_uuid (body (fst created));
             deleted = srv (DELETE (''/people/'' @ to_string uuid)) (snd created);
             res = fst (srv (GET (''/people/'' @ to_string uuid)) (snd deleted))
         in 200 \<le> status (fst deleted) \<and> status (fst deleted) \<le> 399
            \<and> 400 \<le> status res \<and> status res \<le> 499"
  using assms
  by (simp add: subsequent_GET_after_delete_with_def passes_cy_request API_BASE_def Let_def
      person_url_def)

lemma suite_list:
  assumes "passes (returns_an_array_response srv st)"
  shows "status (fst (srv (GET ''/people'') st)) = 200
         \<and> (\<exists>fs rs. body (fst (srv (GET ''/people'') st)) = JObj fs
               \<and> map_of fs ''rows'' = Some (JArr rs))"
  using assms
  by (simp add: returns_an_array_response_def passes_cy_request API_BASE_def
      passes_assertPgResultShape)

lemma suite_update:
  assumes "passes (updates_an_existing_person_and_returns_200_with payload updated srv st)"
  shows "let created = srv (POST ''/people'' payload) st;
             uuid = first_row_uuid (body (fst created));
             res = fst (srv (PUT (''/people/'' @ to_string uuid) updated) (snd created))
         in status res = 200 \<and> passes (content_type_is_json res)"
  using assms
  by (simp add: updates_an_existing_person_and_returns_200_with_def passes_cy_request
      API_BASE_def Let_def person_url_def)

lemma suite_create:
  assumes "passes (creates_a_person_and_returns_inserted_rows_with payload srv st)"
  shows "status (fst (srv (POST ''/people'' payload) st)) \<in> {200, 201}
      \<and> (\<exists>fs r rest. body (fst (srv (POST ''/people'' payload) st)) = JObj fs
            \<and> map_of fs ''rows'' = Some (JArr (r # rest)))"
proof -
  let ?res = "fst (srv (POST ''/people'' payload) st)"
  from assms have s: "status ?res \<in> {200, 201}"
    and shape: "passes (assertPgResultShape (body ?res))"
    and len: "length (rows (body ?res)) > 0"
    by (simp_all add: creates_a_person_and_returns_inserted_rows_with_def passes_cy_request
        API_BASE_def)
  from shape obtain fs rs where b: "body ?res = JObj fs" and r: "map_of fs ''rows'' = Some (JArr rs)"
    unfolding passes_assertPgResultShape by blast
  from len have "rs \<noteq> []"
    by (simp add: b rows_envelope [OF r])
  then obtain r' rest where "rs = r' # rest"
    by (cases rs) simp_all
  with b r s show ?thesis
    by blast
qed

lemma suite_read_existing:
  assumes "passes (returns_200_for_an_existing_uuid_with payload srv st)"
  shows "\<exists>fs r rest u.
          body (fst (srv (POST ''/people'' payload) st)) = JObj fs
          \<and> map_of fs ''rows'' = Some (JArr (r # rest))
          \<and> obj_get r ''uuid'' = Some (JStr u)
          \<and> status (fst (srv (GET (''/people/'' @ u)) (snd (srv (POST ''/people'' payload) st)))) = 200
          \<and> (\<exists>fs' rs'.
                body (fst (srv (GET (''/people/'' @ u)) (snd (srv (POST ''/people'' payload) st))))
                  = JObj fs'
                \<and> map_of fs' ''rows'' = Some (JArr rs'))"
proof -
  let ?createRes = "fst (srv (POST ''/people'' payload) st)"
  let ?st1 = "snd (srv (POST ''/people'' payload) st)"
  from assms have shape: "passes (assertPgResultShape (body ?createRes))"
    and str: "is_string (first_row_uuid (body ?createRes))"
    by (simp_all add: returns_200_for_an_existing_uuid_with_def passes_cy_request API_BASE_def
        Let_def)
  from str obtain u where u: "first_row_uuid (body ?createRes) = JStr u"
    by (cases "first_row_uuid (body ?createRes)") simp_all
  from assms have s: "status (fst (srv (GET (''/people/'' @ u)) ?st1)) = 200"
    and gshape: "passes (assertPgResultShape (body (fst (srv (GET (''/people/'' @ u)) ?st1))))"
    by (simp_all add: returns_200_for_an_existing_uuid_with_def passes_cy_request API_BASE_def
        Let_def u person_url_def)
  from first_row_uuid_string [OF shape u] obtain fs r rest
    where c: "body ?createRes = JObj fs" "map_of fs ''rows'' = Some (JArr (r # rest))"
      "obj_get r ''uuid'' = Some (JStr u)"
    by blast
  from gshape obtain fs' rs'
    where g: "body (fst (srv (GET (''/people/'' @ u)) ?st1)) = JObj fs'"
      "map_of fs' ''rows'' = Some (JArr rs')"
    unfolding passes_assertPgResultShape by blast
  from c s g show ?thesis
    by blast
qed

lemma suite_read_rows:
  assumes "passes (returns_rows_for_the_requested_uuid_with payload srv st)"
  shows "\<exists>uuid fs' rs'.
          uuid = first_row_uuid (body (fst (srv (POST ''/people'' payload) st)))
          \<and> status (fst (srv (GET (''/people/'' @ to_string uuid))
                (snd (srv (POST ''/people'' payload) st)))) = 200
          \<and> body (fst (srv (GET (''/people/'' @ to_string uuid))
                (snd (srv (POST ''/people'' payload) st)))) = JObj fs'
          \<and> map_of fs' ''rows'' = Some (JArr rs')
          \<and> (\<forall>r rest v. rs' = r # rest \<and> obj_get r ''uuid'' = Some v \<longrightarrow> v = uuid)"
proof -
  let ?uuid = "first_row_uuid (body (fst (srv (POST ''/people'' payload) st)))"
  let ?res = "fst (srv (GET (''/people/'' @ to_string ?uuid)) (snd (srv (POST ''/people'' payload) st)))"
  from assms have s: "status ?res = 200"
    and gshape: "passes (assertPgResultShape (body ?res))"
    and chk: "passes (requested_uuid_check (body ?res) ?uuid)"
    by (simp_all add: returns_rows_for_the_requested_uuid_with_def passes_cy_request API_BASE_def
        Let_def person_url_def)
  from gshape obtain fs' rs'
    where g: "body ?res = JObj fs'" "map_of fs' ''rows'' = Some (JArr rs')"
    unfolding passes_assertPgResultShape by blast
  have rws: "rows (body ?res) = rs'"
    unfolding g(1) using g(2) by (rule rows_envelope)
  have "\<forall>r rest v. rs' = r # rest \<and> obj_get r ''uuid'' = Some v \<longrightarrow> v = ?uuid"
    using passes_requested_uuid_check [OF chk] rws by blast
  with s g show ?thesis
    by blast
qed

text \<open>
  The suite's update test for the nil UUID accepts \<open>name_only_update_server\<close> whatever the
  readings of \<open>uniqueName\<close>.
\<close>

lemma name_only_update_server_passes:
  "passes (rejects_update_for_non_existing_uuid now rnd name_only_update_server ())"
  by (simp add: rejects_update_for_non_existing_uuid_def
      rejects_update_for_non_existing_uuid_with_def passes_cy_request name_only_update_server_def
      PUT_def get_prop_def)

section \<open>The modelled service\<close>

subsection \<open>Identifiers\<close>

lemma decimal_show_nat:
  "foldl (\<lambda>a c. 10 * a + (of_char c - 48)) (0::nat) (show_nat n) = n"
proof (induction n rule: show_nat.induct)
  case (1 n)
  show ?case
  proof (cases "n < 10")
    case True
    then show ?thesis
      by (subst show_nat.simps) simp
  next
    case False
    have d: "n mod 10 < 10" by simp
    from False "1.IH" show ?thesis
      by (subst show_nat.simps) (simp add: d)
  qed
qed

lemma decimal_zeros:
  "foldl (\<lambda>a c. 10 * a + (of_char c - 48)) (0::nat) (replicate k CHR ''0'' @ s)
     = foldl (\<lambda>a c. 10 * a + (of_char c - 48)) 0 s"
  by (induction k) simp_all

lemma uuid_of_nat_inj: "uuid_of_nat a = uuid_of_nat b \<Longrightarrow> a = b"
proof -
  assume "uuid_of_nat a = uuid_of_nat b"
  then have "replicate (12 - length (show_nat a)) CHR ''0'' @ show_nat a
      = replicate (12 - length (show_nat b)) CHR ''0'' @ show_nat b"
    by (simp add: uuid_of_nat_def)
  then have "foldl (\<lambda>a c. 10 * a + (of_char c - 48)) (0::nat)
        (replicate (12 - length (show_nat a)) CHR ''0'' @ show_nat a)
      = foldl (\<lambda>a c. 10 * a + (of_char c - 48)) (0::nat)
        (replicate (12 - length (show_nat b)) CHR ''0'' @ show_nat b)"
    by (rule arg_cong)
  then show "a = b"
    by (simp only: decimal_zeros decimal_show_nat)
qed

lemma uuid_of_nat_not_nil: "uuid_of_nat n \<noteq> nil_uuid"
  by (simp add: uuid_of_nat_def nil_uuid_def)

subsection \<open>Routing\<close>

lemma service_list: "service impl (GET ''/people'') st = list_people st"
  by (simp add: service_def GET_def route_of_def API_BASE_def)

lemma service_create: "service impl (POST ''/people'' b) st = create_person impl b st"
  by (simp add: service_def POST_def route_of_def API_BASE_def)

lemma service_read: "service impl (GET (''/people/'' @ u)) st = read_person impl u st"
  by (simp add: service_def GET_def route_of_def API_BASE_def)

lemma service_update:
  "service impl (PUT (''/people/'' @ u) b) st = update_person impl u b st"
  by (simp add: service_def PUT_def route_of_def API_BASE_def)

lemma service_delete:
  "service impl (DELETE (''/people/'' @ u)) st = delete_person impl u st"
  by (simp add: service_def DELETE_def route_of_def API_BASE_def)

subsection \<open>Steps of the service\<close>

lemma client_error_band: "400 \<le> client_error n \<and> client_error n \<le> 499"
proof -
  have "n mod 100 < 100" by simp
  then show ?thesis unfolding client_error_def by linarith
qed

lemma create_person_valid:
  assumes "valid_create P"
  shows "create_person impl P st =
           (json_response (case on_create impl of Create200 \<Rightarrow> 200 | Create201 \<Rightarrow> 201)
              (envelope [row (uuid_of_nat (Suc (issued st))) (new_fields (fields_of P))] 1),
            \<lparr>people = people st @ [(uuid_of_nat (Suc (issued st)), new_fields (fields_of P))],
             issued = Suc (issued st)\<rparr>)"
  using assms by (simp add: create_person_def Let_def)

lemma first_row_uuid_envelope: "first_row_uuid (envelope (row u fs # rs) n) = JStr u"
  by (simp add: first_row_uuid_def rows_def get_prop_def envelope_def row_def)

lemma status_json_response [simp]: "status (json_response c b) = c"
  by (simp add: json_response_def)

lemma body_json_response [simp]: "body (json_response c b) = b"
  by (simp add: json_response_def)

lemma json_response_is_json [simp]: "passes (content_type_is_json (json_response c b))"
  by (simp add: json_response_def content_type_is_json_def sublist_code)

lemma status_deleted_response: "status (deleted_response d) \<in> {200, 204}"
  by (cases d) simp_all

lemma status_invalid_response: "status (invalid_response c) \<in> {200, 400, 422}"
  by (cases c) simp_all

lemma service_cases:
  "service impl req st = list_people st
   \<or> service impl req st = create_person impl (req_body req) st
   \<or> (\<exists>u. service impl req st = read_person impl u st)
   \<or> (\<exists>u. service impl req st = update_person impl u (req_body req) st)
   \<or> (\<exists>u. service impl req st = delete_person impl u st)
   \<or> (\<exists>r. service impl req st = (r, st))"
  by (cases "route_of (req_url req)") (auto simp: service_def)

lemma keys_list: "snd (list_people st) = st"
  by (simp add: list_people_def)

lemma keys_read: "snd (read_person impl u st) = st"
  by (simp add: read_person_def split: option.splits)

lemma keys_create:
  "fst ` set (people (snd (create_person impl b st)))
     \<subseteq> insert (uuid_of_nat (Suc (issued st))) (fst ` set (people st))"
  by (auto simp: create_person_def Let_def)

lemma keys_update:
  "map fst (people (snd (update_person impl u b st))) = map fst (people st)"
  by (auto simp: update_person_def Let_def split: option.splits)

lemma keys_delete:
  "fst ` set (people (snd (delete_person impl u st))) \<subseteq> fst ` set (people st) - {u}"
proof (cases "map_of (people st) u")
  case None
  then have "u \<notin> fst ` set (people st)"
    by (simp add: map_of_eq_None_iff)
  with None show ?thesis
    by (auto simp: delete_person_def split: delete_missing_choice.splits)
next
  case (Some fs)
  then show ?thesis
    by (auto simp: delete_person_def)
qed

lemma issued_create: "issued st \<le> issued (snd (create_person impl b st))"
  by (simp add: create_person_def Let_def)

lemma issued_update: "issued (snd (update_person impl u b st)) = issued st"
  by (simp add: update_person_def Let_def split: option.splits)

lemma issued_delete: "issued (snd (delete_person impl u st)) = issued st"
  by (simp add: delete_person_def split: option.splits delete_missing_choice.splits)

lemma issued_step: "issued st \<le> issued (snd (service impl req st))"
  using service_cases [of impl req st]
  by (auto simp: keys_list keys_read issued_update issued_delete issued_create)

lemma keys_step:
  "fst ` set (people (snd (service impl req st)))
     \<subseteq> insert (uuid_of_nat (Suc (issued st))) (fst ` set (people st))"
proof -
  consider
      (unchanged) r where "service impl req st = (r, st)"
    | (listed) "service impl req st = list_people st"
    | (created) "service impl req st = create_person impl (req_body req) st"
    | (read) u where "service impl req st = read_person impl u st"
    | (updated) u where "service impl req st = update_person impl u (req_body req) st"
    | (deleted) u where "service impl req st = delete_person impl u st"
    using service_cases [of impl req st] by blast
  then show ?thesis
  proof cases
    case unchanged
    then show ?thesis by auto
  next
    case listed
    then show ?thesis by (auto simp: keys_list)
  next
    case created
    then show ?thesis using keys_create [of impl "req_body req" st] by simp
  next
    case read
    then show ?thesis by (auto simp: keys_read)
  next
    case updated
    have "fst ` set (people (snd (update_person impl u (req_body req) st))) = fst ` set (people st)"
      using keys_update [of impl u "req_body req" st] by (metis set_map)
    with updated show ?thesis by auto
  next
    case deleted
    then show ?thesis using keys_delete [of impl u st] by auto
  qed
qed

text \<open>An identifier that was issued and is not in the store never comes back.\<close>

lemma retired_step:
  assumes "k \<le> issued st" and "uuid_of_nat k \<notin> fst ` set (people st)"
  shows "uuid_of_nat k \<notin> fst ` set (people (snd (service impl req st)))"
proof
  assume "uuid_of_nat k \<in> fst ` set (people (snd (service impl req st)))"
  with keys_step [of impl req st] assms(2) have "uuid_of_nat k = uuid_of_nat (Suc (issued st))"
    by blast
  then have "k = Suc (issued st)"
    by (rule uuid_of_nat_inj)
  with assms(1) show False by simp
qed

lemma issued_run: "issued st \<le> issued (run (service impl) reqs st)"
proof (induction reqs arbitrary: st)
  case Nil
  show ?case by (simp add: run_def)
next
  case (Cons req reqs)
  have "issued st \<le> issued (snd (service impl req st))"
    by (rule issued_step)
  also have "\<dots> \<le> issued (run (service impl) reqs (snd (service impl req st)))"
    by (rule Cons.IH)
  finally show ?case by (simp add: run_def)
qed

lemma retired_run:
  assumes "k \<le> issued st" and "uuid_of_nat k \<notin> fst ` set (people st)"
  shows "uuid_of_nat k \<notin> fst ` set (people (run (service impl) reqs st))"
  using assms
proof (induction reqs arbitrary: st)
  case Nil
  then show ?case by (simp add: run_def)
next
  case (Cons req reqs)
  have a: "k \<le> issued (snd (service impl req st))"
    using Cons.prems(1) issued_step [of st impl req] by linarith
  have b: "uuid_of_nat k \<notin> fst ` set (people (snd (service impl req st)))"
    using Cons.prems by (rule retired_step)
  from Cons.IH [OF a b] show ?case by (simp add: run_def)
qed

lemma read_person_absent:
  assumes "u \<notin> fst ` set (people st)"
  shows "status (fst (read_person impl u st)) = client_error (on_read_missing impl)"
proof -
  from assms have "map_of (people st) u = None"
    by (simp add: map_of_eq_None_iff)
  then show ?thesis by (simp add: read_person_def)
qed

lemma delete_person_present:
  assumes "u \<in> fst ` set (people st)"
  shows "status (fst (delete_person impl u st)) \<in> {200, 204}"
proof -
  from assms obtain fs where "map_of (people st) u = Some fs"
    by (cases "map_of (people st) u") (auto simp: map_of_eq_None_iff)
  then show ?thesis
    using status_deleted_response [of "on_delete impl"] by (simp add: delete_person_def)
qed

lemma service_list_of_empty_store:
  assumes "people st = []"
  shows "status (fst (service impl (GET ''/people'') st)) = 200
         \<and> get_prop (body (fst (service impl (GET ''/people'') st))) ''rows'' = JArr []
         \<and> rows (body (fst (service impl (GET ''/people'') st))) = []
         \<and> passes (assertPgResultShape (body (fst (service impl (GET ''/people'') st))))
         \<and> passes (content_type_is_json (fst (service impl (GET ''/people'') st)))"
  unfolding service_list using assms
  by (simp add: list_people_def envelope_def get_prop_def rows_def passes_assertPgResultShape)

lemma service_deleted_record_stays_unreadable:
  assumes "valid_create P"
  shows "let created = service impl (POST ''/people'' P) st;
             uuid = first_row_uuid (body (fst created));
             st2 = run (service impl) between (snd created);
             deleted = service impl (DELETE (''/people/'' @ to_string uuid)) st2;
             st4 = run (service impl) after (snd deleted);
             res = fst (service impl (GET (''/people/'' @ to_string uuid)) st4)
         in is_string uuid
            \<and> status (fst created) \<in> {200, 201}
            \<and> (between = [] \<longrightarrow> status (fst deleted) \<in> {200, 204})
            \<and> 400 \<le> status res \<and> status res \<le> 499"
proof -
  let ?k = "Suc (issued st)"
  let ?u = "uuid_of_nat ?k"
  let ?st1 = "snd (create_person impl P st)"
  let ?st2 = "run (service impl) between ?st1"
  let ?st3 = "snd (delete_person impl ?u ?st2)"
  let ?st4 = "run (service impl) after ?st3"
  note c = create_person_valid [OF assms, of impl st]
  have uuid: "first_row_uuid (body (fst (create_person impl P st))) = JStr ?u"
    by (simp add: c first_row_uuid_envelope)
  have created: "status (fst (create_person impl P st)) \<in> {200, 201}"
    by (cases "on_create impl") (simp_all add: c)
  have k1: "?k \<le> issued ?st1"
    by (simp add: c)
  have k2: "?k \<le> issued ?st2"
    using k1 issued_run [of ?st1 impl between] by linarith
  have k3: "?k \<le> issued ?st3"
    using k2 by (simp add: issued_delete)
  have gone: "?u \<notin> fst ` set (people ?st3)"
    using keys_delete [of impl ?u ?st2] by blast
  have "?u \<notin> fst ` set (people ?st4)"
    using k3 gone by (rule retired_run)
  then have r: "status (fst (read_person impl ?u ?st4)) = client_error (on_read_missing impl)"
    by (rule read_person_absent)
  have present: "?u \<in> fst ` set (people ?st1)"
    by (simp add: c)
  have del: "between = [] \<longrightarrow> status (fst (delete_person impl ?u ?st2)) \<in> {200, 204}"
    using present delete_person_present [of ?u ?st1 impl] by (simp add: run_def)
  show ?thesis
    unfolding Let_def service_create uuid to_string.simps service_delete service_read r
    using created del client_error_band [of "on_read_missing impl"] by simp
qed

lemma valid_create_update: "valid_create b \<Longrightarrow> valid_update b"
  by (cases b) simp_all

lemma service_update_keeps_identifier:
  assumes "valid_create P" and "valid_create P'"
  shows "let created = service impl (POST ''/people'' P) st;
             uuid = first_row_uuid (body (fst created));
             st2 = run (service impl) between (snd created);
             updated = service impl (PUT (''/people/'' @ to_string uuid) P') st2;
             res = fst (service impl (GET (''/people/'' @ to_string uuid)) (snd updated))
         in is_string uuid
            \<and> (to_string uuid \<in> fst ` set (people st2) \<longrightarrow>
                 status (fst updated) = 200
                 \<and> passes (content_type_is_json (fst updated))
                 \<and> map fst (people (snd updated)) = map fst (people st2)
                 \<and> status res = 200
                 \<and> first_row_uuid (body res) = uuid)"
proof -
  let ?u = "uuid_of_nat (Suc (issued st))"
  let ?st2 = "run (service impl) between (snd (create_person impl P st))"
  let ?st3 = "snd (update_person impl ?u P' ?st2)"
  note c = create_person_valid [OF assms(1), of impl st]
  have uuid: "first_row_uuid (body (fst (create_person impl P st))) = JStr ?u"
    by (simp add: c first_row_uuid_envelope)
  have main: "status (fst (update_person impl ?u P' ?st2)) = 200
      \<and> passes (content_type_is_json (fst (update_person impl ?u P' ?st2)))
      \<and> map fst (people ?st3) = map fst (people ?st2)
      \<and> status (fst (read_person impl ?u ?st3)) = 200
      \<and> first_row_uuid (body (fst (read_person impl ?u ?st3))) = JStr ?u"
    if present: "?u \<in> fst ` set (people ?st2)"
  proof -
    from present obtain old where old: "map_of (people ?st2) ?u = Some old"
      by (cases "map_of (people ?st2) ?u") (auto simp: map_of_eq_None_iff)
    have v: "valid_update P'"
      using assms(2) by (rule valid_create_update)
    have keys: "map fst (people ?st3) = map fst (people ?st2)"
      by (rule keys_update)
    then have "fst ` set (people ?st3) = fst ` set (people ?st2)"
      by (metis set_map)
    with present obtain fs where fs: "map_of (people ?st3) ?u = Some fs"
      by (cases "map_of (people ?st3) ?u") (auto simp: map_of_eq_None_iff)
    have "status (fst (update_person impl ?u P' ?st2)) = 200
        \<and> passes (content_type_is_json (fst (update_person impl ?u P' ?st2)))"
      by (simp add: update_person_def old v Let_def)
    moreover have "status (fst (read_person impl ?u ?st3)) = 200
        \<and> first_row_uuid (body (fst (read_person impl ?u ?st3))) = JStr ?u"
      by (simp add: read_person_def fs first_row_uuid_envelope)
    ultimately show ?thesis using keys by blast
  qed
  show ?thesis
    unfolding Let_def service_create uuid to_string.simps service_update service_read
    using main by simp
qed


lemma read_person_present:
  assumes "u \<in> fst ` set (people st)"
  shows "\<exists>fs. fst (read_person impl u st) = json_response 200 (envelope [row u fs] 1)"
proof -
  from assms obtain fs where "map_of (people st) u = Some fs"
    by (cases "map_of (people st) u") (auto simp: map_of_eq_None_iff)
  then have "fst (read_person impl u st) = json_response 200 (envelope [row u fs] 1)"
    by (simp add: read_person_def)
  then show ?thesis by blast
qed

lemma read_back:
  assumes "u \<in> fst ` set (people st)"
  shows "\<exists>fs' r' rest'.
           status (fst (service impl (GET (''/people/'' @ u)) st)) = 200
           \<and> passes (content_type_is_json (fst (service impl (GET (''/people/'' @ u)) st)))
           \<and> body (fst (service impl (GET (''/people/'' @ u)) st)) = JObj fs'
           \<and> map_of fs' ''rows'' = Some (JArr (r' # rest'))
           \<and> obj_get r' ''uuid'' = Some (JStr u)"
proof -
  from read_person_present [OF assms, of impl] obtain fs
    where r: "fst (read_person impl u st) = json_response 200 (envelope [row u fs] 1)"
    by blast
  show ?thesis
    unfolding service_read r
    by (simp add: envelope_def row_def)
qed

lemma service_create_then_read:
  assumes "valid_create P"
  shows "\<exists>fs r rest u.
           status (fst (service impl (POST ''/people'' P) st)) \<in> {200, 201}
           \<and> passes (content_type_is_json (fst (service impl (POST ''/people'' P) st)))
           \<and> body (fst (service impl (POST ''/people'' P) st)) = JObj fs
           \<and> map_of fs ''rows'' = Some (JArr (r # rest))
           \<and> obj_get r ''uuid'' = Some (JStr u)
           \<and> (\<exists>fs' r' rest'.
                 status (fst (service impl (GET (''/people/'' @ u))
                    (snd (service impl (POST ''/people'' P) st)))) = 200
                 \<and> body (fst (service impl (GET (''/people/'' @ u))
                      (snd (service impl (POST ''/people'' P) st)))) = JObj fs'
                 \<and> map_of fs' ''rows'' = Some (JArr (r' # rest'))
                 \<and> obj_get r' ''uuid'' = Some (JStr u))
           \<and> (u \<in> fst ` set (people (run (service impl) between
                    (snd (service impl (POST ''/people'' P) st)))) \<longrightarrow>
                (\<exists>fs' r' rest'.
                   status (fst (service impl (GET (''/people/'' @ u))
                      (run (service impl) between (snd (service impl (POST ''/people'' P) st)))))
                     = 200
                   \<and> body (fst (service impl (GET (''/people/'' @ u))
                        (run (service impl) between (snd (service impl (POST ''/people'' P) st)))))
                       = JObj fs'
                   \<and> map_of fs' ''rows'' = Some (JArr (r' # rest'))
                   \<and> obj_get r' ''uuid'' = Some (JStr u)))"
proof -
  let ?u = "uuid_of_nat (Suc (issued st))"
  let ?st1 = "snd (service impl (POST ''/people'' P) st)"
  note c = create_person_valid [OF assms, of impl st]
  have s: "status (fst (service impl (POST ''/people'' P) st)) \<in> {200, 201}"
    unfolding service_create c by (cases "on_create impl") simp_all
  have j: "passes (content_type_is_json (fst (service impl (POST ''/people'' P) st)))"
    unfolding service_create c by simp
  have b: "body (fst (service impl (POST ''/people'' P) st))
      = JObj [(''rows'', JArr [row ?u (new_fields (fields_of P))]), (''rowCount'', JNum (of_nat 1))]"
    unfolding service_create c by (simp add: envelope_def)
  have r: "map_of [(''rows'', JArr [row ?u (new_fields (fields_of P))]), (''rowCount'', JNum (of_nat 1))]
      ''rows'' = Some (JArr (row ?u (new_fields (fields_of P)) # []))"
    by simp
  have g: "obj_get (row ?u (new_fields (fields_of P))) ''uuid'' = Some (JStr ?u)"
    by (simp add: row_def)
  have present: "?u \<in> fst ` set (people ?st1)"
    unfolding service_create c by simp
  have now: "\<exists>fs' r' rest'.
      status (fst (service impl (GET (''/people/'' @ ?u)) ?st1)) = 200
      \<and> body (fst (service impl (GET (''/people/'' @ ?u)) ?st1)) = JObj fs'
      \<and> map_of fs' ''rows'' = Some (JArr (r' # rest'))
      \<and> obj_get r' ''uuid'' = Some (JStr ?u)"
    using read_back [OF present, of impl] by blast
  have later: "?u \<in> fst ` set (people (run (service impl) between ?st1)) \<longrightarrow>
      (\<exists>fs' r' rest'.
         status (fst (service impl (GET (''/people/'' @ ?u)) (run (service impl) between ?st1))) = 200
         \<and> body (fst (service impl (GET (''/people/'' @ ?u)) (run (service impl) between ?st1)))
             = JObj fs'
         \<and> map_of fs' ''rows'' = Some (JArr (r' # rest'))
         \<and> obj_get r' ''uuid'' = Some (JStr ?u))"
    using read_back [of ?u "run (service impl) between ?st1" impl] by blast
  from s j b r g now later show ?thesis
    by blast
qed

subsection \<open>The service passes the suite\<close>

lemma default_payload_valid: "valid_create (makeTitanicPerson [] now rnd)"
  by (simp add: makeTitanicPerson_def spread_def complete_def well_typed_def columns_def
      is_integer_def)

lemma named_payload_valid: "valid_create (makeTitanicPerson [(''name'', JStr s)] now rnd)"
  by (simp add: invalid_name_payload complete_def well_typed_def columns_def is_integer_def)

lemma numeric_name_invalid:
  "\<not> valid_create (makeTitanicPerson [(''name'', JNum q)] now rnd)"
  "\<not> valid_update (makeTitanicPerson [(''name'', JNum q)] now rnd)"
  by (simp_all add: invalid_name_payload complete_def well_typed_def columns_def is_integer_def)

lemma empty_object_invalid: "\<not> complete []"
  by (simp add: complete_def columns_def)

lemma nil_url_people: "API_BASE @ ''/'' @ nil_uuid = ''/people/'' @ nil_uuid"
  by (simp add: API_BASE_def)

lemma passes_assertPgResultShape_envelope [simp]: "passes (assertPgResultShape (envelope rs n))"
  by (simp add: passes_assertPgResultShape envelope_def)

lemma rows_of_envelope [simp]: "rows (envelope rs n) = rs"
  by (simp add: rows_def get_prop_def envelope_def)

lemma has_uuid_row [simp]: "has_property (row u fs) ''uuid''"
  by (simp add: has_property_def row_def)

lemma uuid_of_row [simp]: "get_prop (row u fs) ''uuid'' = JStr u"
  by (simp add: get_prop_def row_def)

lemma nil_absent_run:
  assumes "nil_uuid \<notin> fst ` set (people st)"
  shows "nil_uuid \<notin> fst ` set (people (run (service impl) reqs st))"
  using assms
proof (induction reqs arbitrary: st)
  case Nil
  then show ?case by (simp add: run_def)
next
  case (Cons req reqs)
  have "nil_uuid \<notin> fst ` set (people (snd (service impl req st)))"
    using keys_step [of impl req st] Cons.prems uuid_of_nat_not_nil [of "Suc (issued st)"]
    by auto
  from Cons.IH [OF this] show ?case by (simp add: run_def)
qed

lemma passes_list_tests:
  "passes (returns_200_and_JSON (service impl) st)"
  "passes (returns_an_array_response (service impl) st)"
  "passes (each_item_has_a_uuid_field (service impl) st)"
  unfolding returns_200_and_JSON_def returns_an_array_response_def
    each_item_has_a_uuid_field_def API_BASE_def passes_cy_request service_list
  by (cases "people st"; simp add: list_people_def split: prod.splits)+


lemma status_created: "(case c of Create200 \<Rightarrow> 200 | Create201 \<Rightarrow> (201::nat)) \<in> {200, 201}"
  by (cases c) simp_all

lemma present_after_create:
  "\<exists>fs. map_of (people st @ [(u, new)]) u = Some fs"
  by (cases "map_of (people st) u") (simp_all add: map_add_def)

lemma passes_create_tests:
  "passes (creates_a_person_and_returns_inserted_rows now rnd (service impl) st)"
  "passes (handles_missing_body_gracefully (service impl) st)"
  "passes (handles_invalid_payload_types now rnd (service impl) st)"
proof -
  note c = create_person_valid [OF default_payload_valid [of now rnd], of impl st]
  show "passes (creates_a_person_and_returns_inserted_rows now rnd (service impl) st)"
    unfolding creates_a_person_and_returns_inserted_rows_def
      creates_a_person_and_returns_inserted_rows_with_def API_BASE_def passes_cy_request
      service_create c
    using status_created [of "on_create impl"] by simp
  show "passes (handles_missing_body_gracefully (service impl) st)"
    unfolding handles_missing_body_gracefully_def API_BASE_def passes_cy_request service_create
    using status_invalid_response [of "on_invalid_create impl"]
    by (simp add: create_person_def empty_object_invalid)
  have "service impl
          \<lparr>req_method = ''POST'', req_url = ''/people'',
           req_headers = [(''content-type'', ''application/json'')],
           req_body = makeTitanicPerson [(''name'', JNum 12345)] now rnd\<rparr> st
        = (invalid_response (on_invalid_create impl), st)"
    by (simp add: service_def route_of_def API_BASE_def create_person_def numeric_name_invalid)
  then show "passes (handles_invalid_payload_types now rnd (service impl) st)"
    unfolding handles_invalid_payload_types_def API_BASE_def passes_cy_request
    using status_invalid_response [of "on_invalid_create impl"] by simp
qed

lemma passes_read_tests:
  "passes (returns_200_for_an_existing_uuid now rnd (service impl) st)"
  "passes (returns_rows_for_the_requested_uuid now rnd (service impl) st)"
proof -
  let ?u = "uuid_of_nat (Suc (issued st))"
  let ?new = "new_fields (fields_of (makeTitanicPerson [] now rnd))"
  note c = create_person_valid [OF default_payload_valid [of now rnd], of impl st]
  obtain fs where fs: "map_of (people st @ [(?u, ?new)]) ?u = Some fs"
    using present_after_create by blast
  have r: "read_person impl ?u \<lparr>people = people st @ [(?u, ?new)], issued = Suc (issued st)\<rparr>
      = (json_response 200 (envelope [row ?u fs] 1),
         \<lparr>people = people st @ [(?u, ?new)], issued = Suc (issued st)\<rparr>)"
    using fs by (simp add: read_person_def)
  have chk: "passes (requested_uuid_check (envelope [row ?u fs] 1) (JStr ?u))"
    by (simp add: requested_uuid_check_def row_def has_property_def get_prop_def)
  show "passes (returns_200_for_an_existing_uuid now rnd (service impl) st)"
    unfolding returns_200_for_an_existing_uuid_def returns_200_for_an_existing_uuid_with_def
      API_BASE_def person_url_any passes_cy_request passes_and_then Let_def service_create c
      fst_conv snd_conv body_json_response first_row_uuid_envelope to_string.simps service_read r
    by (cases "on_create impl") simp_all
  show "passes (returns_rows_for_the_requested_uuid now rnd (service impl) st)"
    unfolding returns_rows_for_the_requested_uuid_def returns_rows_for_the_requested_uuid_with_def
      API_BASE_def person_url_any passes_cy_request passes_and_then Let_def service_create c
      fst_conv snd_conv body_json_response first_row_uuid_envelope to_string.simps service_read r
    using chk by (cases "on_create impl") simp_all
qed


lemma passes_update_tests:
  assumes "nil_uuid \<notin> fst ` set (people st)"
  shows "passes (updates_an_existing_person_and_returns_200 now rnd now' rnd' (service impl) st)"
    and "passes (rejects_update_for_non_existing_uuid now rnd (service impl) st)"
    and "passes (handles_invalid_update_payload now rnd now' rnd' (service impl) st)"
proof -
  let ?u = "uuid_of_nat (Suc (issued st))"
  let ?new = "new_fields (fields_of (makeTitanicPerson [] now rnd))"
  let ?st1 = "\<lparr>people = people st @ [(?u, ?new)], issued = Suc (issued st)\<rparr>"
  note c = create_person_valid [OF default_payload_valid [of now rnd], of impl st]
  have "\<exists>fs. map_of (people ?st1) ?u = Some fs"
    unfolding store.select_convs by (rule present_after_create)
  then obtain fs where fs: "map_of (people ?st1) ?u = Some fs"
    by blast
  have v: "valid_update (makeTitanicPerson [(''name'', JStr s)] now' rnd')" for s
    using named_payload_valid by (rule valid_create_update)
  have good: "status (fst (update_person impl ?u (makeTitanicPerson [(''name'', JStr s)] now' rnd') ?st1)) = 200
      \<and> passes (content_type_is_json
            (fst (update_person impl ?u (makeTitanicPerson [(''name'', JStr s)] now' rnd') ?st1)))
      \<and> passes (assertPgResultShape (body
            (fst (update_person impl ?u (makeTitanicPerson [(''name'', JStr s)] now' rnd') ?st1))))"
    for s
    using fs v [of s] by (simp add: update_person_def Let_def)
  show "passes (updates_an_existing_person_and_returns_200 now rnd now' rnd' (service impl) st)"
    unfolding updates_an_existing_person_and_returns_200_def
      updates_an_existing_person_and_returns_200_with_def
      API_BASE_def person_url_any passes_cy_request passes_and_then Let_def service_create c
      fst_conv snd_conv body_json_response first_row_uuid_envelope to_string.simps service_update
    using good [of "uniqueName ''put-updated'' now' rnd'"]
    by (cases "on_create impl") simp_all
  have bad: "status (fst (update_person impl ?u (makeTitanicPerson [(''name'', JNum 999)] now' rnd') ?st1))
      \<in> {200, 400, 422}"
    using fs status_invalid_response [of "on_invalid_update impl"]
    by (simp add: update_person_def numeric_name_invalid)
  show "passes (handles_invalid_update_payload now rnd now' rnd' (service impl) st)"
    unfolding handles_invalid_update_payload_def handles_invalid_update_payload_with_def
      API_BASE_def person_url_any passes_cy_request passes_and_then Let_def service_create c
      fst_conv snd_conv body_json_response first_row_uuid_envelope to_string.simps service_update
    using bad by (cases "on_create impl") simp_all
  from assms have "map_of (people st) nil_uuid = None"
    by (simp add: map_of_eq_None_iff)
  then have "status (fst (update_person impl nil_uuid b st)) = client_error (on_update_missing impl)"
    for b
    by (simp add: update_person_def)
  then show "passes (rejects_update_for_non_existing_uuid now rnd (service impl) st)"
    unfolding rejects_update_for_non_existing_uuid_def rejects_update_for_non_existing_uuid_with_def
      nil_url_people passes_cy_request service_update
    using client_error_band [of "on_update_missing impl"] by simp
qed

lemma passes_read_missing_test:
  assumes "nil_uuid \<notin> fst ` set (people st)"
  shows "passes (returns_4xx_for_a_non_existing_uuid (service impl) st)"
  unfolding returns_4xx_for_a_non_existing_uuid_def nil_url_people passes_cy_request service_read
  using read_person_absent [OF assms, of impl] client_error_band [of "on_read_missing impl"]
  by simp

lemma passes_delete_tests:
  "passes (deletes_an_existing_person now rnd (service impl) st)"
  "passes (subsequent_GET_after_delete now rnd (service impl) st)"
  "passes (deleting_a_non_existing_uuid (service impl) st)"
proof -
  let ?u = "uuid_of_nat (Suc (issued st))"
  let ?new = "new_fields (fields_of (makeTitanicPerson [] now rnd))"
  let ?st1 = "\<lparr>people = people st @ [(?u, ?new)], issued = Suc (issued st)\<rparr>"
  note c = create_person_valid [OF default_payload_valid [of now rnd], of impl st]
  have present: "?u \<in> fst ` set (people ?st1)"
    by simp
  have d: "status (fst (delete_person impl ?u ?st1)) \<in> {200, 204}"
    using present by (rule delete_person_present)
  show "passes (deletes_an_existing_person now rnd (service impl) st)"
    unfolding deletes_an_existing_person_def deletes_an_existing_person_with_def
      API_BASE_def person_url_any passes_cy_request passes_and_then Let_def service_create c
      fst_conv snd_conv body_json_response first_row_uuid_envelope to_string.simps service_delete
    using d by (cases "on_create impl") simp_all
  have gone: "?u \<notin> fst ` set (people (snd (delete_person impl ?u ?st1)))"
    using keys_delete [of impl ?u ?st1] by blast
  have g: "status (fst (read_person impl ?u (snd (delete_person impl ?u ?st1))))
      = client_error (on_read_missing impl)"
    using gone by (rule read_person_absent)
  show "passes (subsequent_GET_after_delete now rnd (service impl) st)"
    unfolding subsequent_GET_after_delete_def subsequent_GET_after_delete_with_def
      API_BASE_def person_url_any passes_cy_request passes_and_then Let_def service_create c
      fst_conv snd_conv body_json_response first_row_uuid_envelope to_string.simps service_delete
      service_read g
    using d client_error_band [of "on_read_missing impl"]
    by (cases "on_create impl") auto
  have "status (fst (delete_person impl nil_uuid st)) \<in> {200, 204, 404}"
  proof (cases "nil_uuid \<in> fst ` set (people st)")
    case True
    then show ?thesis
      using delete_person_present [of nil_uuid st impl] by auto
  next
    case False
    then have "map_of (people st) nil_uuid = None"
      by (simp add: map_of_eq_None_iff)
    then show ?thesis
      using status_deleted_response [of "on_delete impl"]
      by (cases "on_delete_missing impl") (auto simp: delete_person_def)
  qed
  then show "passes (deleting_a_non_existing_uuid (service impl) st)"
    unfolding deleting_a_non_existing_uuid_def nil_url_people passes_cy_request service_delete
    by simp
qed

text \<open>
  Every service the specification admits passes every test of the suite, whatever requests
  it has handled before.
\<close>

lemma service_passes_the_suite:
  "passes (returns_200_and_JSON (service impl) (run (service impl) history empty_store))
   \<and> passes (returns_an_array_response (service impl) (run (service impl) history empty_store))
   \<and> passes (each_item_has_a_uuid_field (service impl) (run (service impl) history empty_store))
   \<and> passes (creates_a_person_and_returns_inserted_rows now rnd (service impl)
         (run (service impl) history empty_store))
   \<and> passes (handles_missing_body_gracefully (service impl)
         (run (service impl) history empty_store))
   \<and> passes (handles_invalid_payload_types now rnd (service impl)
         (run (service impl) history empty_store))
   \<and> passes (returns_200_for_an_existing_uuid now rnd (service impl)
         (run (service impl) history empty_store))
   \<and> passes (returns_rows_for_the_requested_uuid now rnd (service impl)
         (run (service impl) history empty_store))
   \<and> passes (returns_4xx_for_a_non_existing_uuid (service impl)
         (run (service impl) history empty_store))
   \<and> passes (updates_an_existing_person_and_returns_200 now rnd now' rnd' (service impl)
         (run (service impl) history empty_store))
   \<and> passes (rejects_update_for_non_existing_uuid now rnd (service impl)
         (run (service impl) history empty_store))
   \<and> passes (handles_invalid_update_payload now rnd now' rnd' (service impl)
         (run (service impl) history empty_store))
   \<and> passes (deletes_an_existing_person now rnd (service impl)
         (run (service impl) history empty_store))
   \<and> passes (subsequent_GET_after_delete now rnd (service impl)
         (run (service impl) history empty_store))
   \<and> passes (deleting_a_non_existing_uuid (service impl)
         (run (service impl) history empty_store))"
proof -
  have "nil_uuid \<notin> fst ` set (people empty_store)"
    by (simp add: empty_store_def)
  then have n: "nil_uuid \<notin> fst ` set (people (run (service impl) history empty_store))"
    by (rule nil_absent_run)
  show ?thesis
    by (intro conjI passes_list_tests passes_create_tests passes_read_tests
        passes_read_missing_test [OF n] passes_update_tests [OF n] passes_delete_tests)
qed

section \<open>The contract the suite encodes\<close>

text \<open>
  In the statements below \<open>srv\<close> is any server and \<open>st\<close> any state of it; \<open>fst (srv req st)\<close>
  is the response to the request \<open>req\<close> and \<open>snd (srv req st)\<close> the state the exchange leaves.
  The suite's own runs take the payload from \<open>makeTitanicPerson\<close>; a statement about a test
  \<open>\<dots>_with\<close> holds of the run of the suite as the instance at that payload.
\<close>

text \<open>
  C1. The create test of the suite accepts a server only if \<^verbatim>\<open>POST /people\<close> with the
  payload the test draws answers 200 or 201 with a non-empty \<open>rows\<close> array; the first read
  test only if the first row of the created body carries a string \<open>uuid\<close> and
  \<^verbatim>\<open>GET /people/{uuid}\<close>, sent next, answers 200 with a \<open>rows\<close> array; the second read test
  only if that \<^verbatim>\<open>GET\<close> answers 200 with a \<open>rows\<close> array whose first element, when there is
  one and it carries a \<open>uuid\<close>, has the \<open>uuid\<close> read from the created body. On the modelled
  service, for every well-typed payload (all eight fields present, each of its type) and
  from any store: \<^verbatim>\<open>POST /people\<close> answers 200 or 201 with a body whose \<open>rows\<close> is non-empty
  and whose first row carries a string \<open>uuid\<close>; \<^verbatim>\<open>GET /people/{uuid}\<close>, sent next, answers
  200 with a \<open>rows\<close> array whose first element carries that \<open>uuid\<close>, and so does every
  later \<^verbatim>\<open>GET\<close> as long as the record is present.
\<close>

theorem create_then_read_round_trip:
  assumes "valid_create P"
  shows "(passes (creates_a_person_and_returns_inserted_rows now rnd srv st0) \<longrightarrow>
            status (fst (srv (POST ''/people'' (makeTitanicPerson [] now rnd)) st0)) \<in> {200, 201}
            \<and> (\<exists>fs r rest.
                  body (fst (srv (POST ''/people'' (makeTitanicPerson [] now rnd)) st0)) = JObj fs
                  \<and> map_of fs ''rows'' = Some (JArr (r # rest))))
         \<and> (passes (returns_200_for_an_existing_uuid now rnd srv st0) \<longrightarrow>
            (\<exists>fs r rest u.
                body (fst (srv (POST ''/people'' (makeTitanicPerson [] now rnd)) st0)) = JObj fs
                \<and> map_of fs ''rows'' = Some (JArr (r # rest))
                \<and> obj_get r ''uuid'' = Some (JStr u)
                \<and> status (fst (srv (GET (''/people/'' @ u))
                      (snd (srv (POST ''/people'' (makeTitanicPerson [] now rnd)) st0)))) = 200
                \<and> (\<exists>fs' rs'.
                      body (fst (srv (GET (''/people/'' @ u))
                        (snd (srv (POST ''/people'' (makeTitanicPerson [] now rnd)) st0)))) = JObj fs'
                      \<and> map_of fs' ''rows'' = Some (JArr rs'))))
         \<and> (passes (returns_rows_for_the_requested_uuid now rnd srv st0) \<longrightarrow>
            (\<exists>uuid fs' rs'.
                uuid = first_row_uuid
                  (body (fst (srv (POST ''/people'' (makeTitanicPerson [] now rnd)) st0)))
                \<and> status (fst (srv (GET (''/people/'' @ to_string uuid))
                      (snd (srv (POST ''/people'' (makeTitanicPerson [] now rnd)) st0)))) = 200
                \<and> body (fst (srv (GET (''/people/'' @ to_string uuid))
                      (snd (srv (POST ''/people'' (makeTitanicPerson [] now rnd)) st0)))) = JObj fs'
                \<and> map_of fs' ''rows'' = Some (JArr rs')
                \<and> (\<forall>r rest v. rs' = r # rest \<and> obj_get r ''uuid'' = Some v \<longrightarrow> v = uuid)))
         \<and> (\<exists>fs r rest u.
               status (fst (service impl (POST ''/people'' P) st)) \<in> {200, 201}
               \<and> passes (content_type_is_json (fst (service impl (POST ''/people'' P) st)))
               \<and> body (fst (service impl (POST ''/people'' P) st)) = JObj fs
               \<and> map_of fs ''rows'' = Some (JArr (r # rest))
               \<and> obj_get r ''uuid'' = Some (JStr u)
               \<and> (\<exists>fs' r' rest'.
                     status (fst (service impl (GET (''/people/'' @ u))
                        (snd (service impl (POST ''/people'' P) st)))) = 200
                     \<and> body (fst (service impl (GET (''/people/'' @ u))
                          (snd (service impl (POST ''/people'' P) st)))) = JObj fs'
                     \<and> map_of fs' ''rows'' = Some (JArr (r' # rest'))
                     \<and> obj_get r' ''uuid'' = Some (JStr u))
               \<and> (u \<in> fst ` set (people (run (service impl) between
                        (snd (service impl (POST ''/people'' P) st)))) \<longrightarrow>
                    (\<exists>fs' r' rest'.
                       status (fst (service impl (GET (''/people/'' @ u))
                          (run (service impl) between (snd (service impl (POST ''/people'' P) st)))))
                         = 200
                       \<and> body (fst (service impl (GET (''/people/'' @ u))
                            (run (service impl) between (snd (service impl (POST ''/people'' P) st)))))
                           = JObj fs'
                       \<and> map_of fs' ''rows'' = Some (JArr (r' # rest'))
                       \<and> obj_get r' ''uuid'' = Some (JStr u))))"
  using suite_create [of "makeTitanicPerson [] now rnd" srv st0]
    suite_read_existing [of "makeTitanicPerson [] now rnd" srv st0]
    suite_read_rows [of "makeTitanicPerson [] now rnd" srv st0]
    service_create_then_read [OF assms, of impl st between]
  unfolding creates_a_person_and_returns_inserted_rows_def returns_200_for_an_existing_uuid_def
    returns_rows_for_the_requested_uuid_def
  by blast

theorem create_then_read_round_trip_witness:
  "valid_create
     (JObj [(''survived'', JNum 1), (''pclass'', JNum 3), (''name'', JStr ''alice''),
            (''sex'', JStr ''female''), (''age'', JNum 22), (''siblings_spouses_abroad'', JNum 0),
            (''parents_children_abroad'', JNum 0), (''fare'', JNum 7.25)])
   \<and> passes (creates_a_person_and_returns_inserted_rows 1700 42 (service impl0) empty_store)
   \<and> passes (returns_200_for_an_existing_uuid 1700 42 (service impl0) empty_store)
   \<and> passes (returns_rows_for_the_requested_uuid 1700 42 (service impl0) empty_store)
   \<and> status (fst (service impl0 (POST ''/people'' (makeTitanicPerson [] 1700 42)) empty_store))
        \<in> {200, 201}
   \<and> status (fst (service impl0 (POST ''/people''
        (JObj [(''survived'', JNum 1), (''pclass'', JNum 3), (''name'', JStr ''alice''),
               (''sex'', JStr ''female''), (''age'', JNum 22), (''siblings_spouses_abroad'', JNum 0),
               (''parents_children_abroad'', JNum 0), (''fare'', JNum 7.25)])) empty_store))
        \<in> {200, 201}
   \<and> first_row_uuid (body (fst (service impl0 (POST ''/people''
        (JObj [(''survived'', JNum 1), (''pclass'', JNum 3), (''name'', JStr ''alice''),
               (''sex'', JStr ''female''), (''age'', JNum 22), (''siblings_spouses_abroad'', JNum 0),
               (''parents_children_abroad'', JNum 0), (''fare'', JNum 7.25)])) empty_store)))
        = JStr ''00000000-0000-4000-8000-000000000001''
   \<and> ''00000000-0000-4000-8000-000000000001'' \<in> fst ` set (people
        (run (service impl0) [POST ''/people'' (makeTitanicPerson [] 1701 43)]
           (snd (service impl0 (POST ''/people''
              (JObj [(''survived'', JNum 1), (''pclass'', JNum 3), (''name'', JStr ''alice''),
                     (''sex'', JStr ''female''), (''age'', JNum 22),
                     (''siblings_spouses_abroad'', JNum 0), (''parents_children_abroad'', JNum 0),
                     (''fare'', JNum 7.25)])) empty_store))))
   \<and> status (fst (service impl0 (GET (''/people/'' @ ''00000000-0000-4000-8000-000000000001''))
        (snd (service impl0 (POST ''/people''
           (JObj [(''survived'', JNum 1), (''pclass'', JNum 3), (''name'', JStr ''alice''),
                  (''sex'', JStr ''female''), (''age'', JNum 22),
                  (''siblings_spouses_abroad'', JNum 0), (''parents_children_abroad'', JNum 0),
                  (''fare'', JNum 7.25)])) empty_store)))) = 200
   \<and> status (fst (service impl0 (GET (''/people/'' @ ''00000000-0000-4000-8000-000000000001''))
        (run (service impl0) [POST ''/people'' (makeTitanicPerson [] 1701 43)]
           (snd (service impl0 (POST ''/people''
              (JObj [(''survived'', JNum 1), (''pclass'', JNum 3), (''name'', JStr ''alice''),
                     (''sex'', JStr ''female''), (''age'', JNum 22),
                     (''siblings_spouses_abroad'', JNum 0), (''parents_children_abroad'', JNum 0),
                     (''fare'', JNum 7.25)])) empty_store))))) = 200"
proof -
  let ?alice = "JObj [(''survived'', JNum 1), (''pclass'', JNum 3), (''name'', JStr ''alice''),
            (''sex'', JStr ''female''), (''age'', JNum 22), (''siblings_spouses_abroad'', JNum 0),
            (''parents_children_abroad'', JNum 0), (''fare'', JNum 7.25)]"
  let ?st1 = "snd (service impl0 (POST ''/people'' ?alice) empty_store)"
  let ?st2 = "run (service impl0) [POST ''/people'' (makeTitanicPerson [] 1701 43)] ?st1"
  have v: "valid_create ?alice"
    by code_simp
  have p1: "passes (creates_a_person_and_returns_inserted_rows 1700 42 (service impl0) empty_store)"
    by code_simp
  have p2: "passes (returns_200_for_an_existing_uuid 1700 42 (service impl0) empty_store)"
    by code_simp
  have p3: "passes (returns_rows_for_the_requested_uuid 1700 42 (service impl0) empty_store)"
    by code_simp
  have e: "first_row_uuid (body (fst (service impl0 (POST ''/people'' ?alice) empty_store)))
      = JStr ''00000000-0000-4000-8000-000000000001''"
    by code_simp
  have m: "''00000000-0000-4000-8000-000000000001'' \<in> fst ` set (people ?st2)"
    by code_simp
  note t = create_then_read_round_trip [OF v, of 1700 42 "service impl0" empty_store impl0
      empty_store "[POST ''/people'' (makeTitanicPerson [] 1701 43)]"]
  from t p1 have c1: "status (fst (service impl0 (POST ''/people'' (makeTitanicPerson [] 1700 42))
      empty_store)) \<in> {200, 201}"
    by blast
  from t obtain fs r rest u
    where s: "status (fst (service impl0 (POST ''/people'' ?alice) empty_store)) \<in> {200, 201}"
      and b: "body (fst (service impl0 (POST ''/people'' ?alice) empty_store)) = JObj fs"
      and r: "map_of fs ''rows'' = Some (JArr (r # rest))"
      and g: "obj_get r ''uuid'' = Some (JStr u)"
      and soon: "status (fst (service impl0 (GET (''/people/'' @ u)) ?st1)) = 200"
      and later: "u \<in> fst ` set (people ?st2) \<longrightarrow>
          status (fst (service impl0 (GET (''/people/'' @ u)) ?st2)) = 200"
    by blast
  from b r g have "first_row_uuid (body (fst (service impl0 (POST ''/people'' ?alice) empty_store)))
      = JStr u"
    by (simp add: first_row_uuid_def rows_def get_prop_def)
  with e have u: "u = ''00000000-0000-4000-8000-000000000001''"
    by simp
  note n = soon [unfolded u] and l = later [unfolded u, THEN mp, OF m]
  from v p1 p2 p3 c1 s e m n l show ?thesis
    by (intro conjI)
qed

text \<open>
  C2. The test of the suite accepts a server only if the \<^verbatim>\<open>DELETE\<close> of the record it has
  created answers with a 2xx or 3xx status and the \<^verbatim>\<open>GET\<close> of the same \<open>uuid\<close>, sent next,
  answers with a status from 400 to 499. On the modelled service, for every record created
  by a \<^verbatim>\<open>POST\<close> of a well-typed payload, from any store and whatever requests come between
  and after: once \<^verbatim>\<open>DELETE /people/{uuid}\<close> has been handled, every later
  \<^verbatim>\<open>GET /people/{uuid}\<close> answers with a status from 400 to 499; the \<^verbatim>\<open>DELETE\<close> itself
  answers 200 or 204 when it directly follows the creation.
\<close>

theorem deleted_record_stays_unreadable:
  assumes "valid_create P"
  shows "(passes (subsequent_GET_after_delete_with payload srv st0) \<longrightarrow>
            (let created = srv (POST ''/people'' payload) st0;
                 uuid = first_row_uuid (body (fst created));
                 deleted = srv (DELETE (''/people/'' @ to_string uuid)) (snd created);
                 res = fst (srv (GET (''/people/'' @ to_string uuid)) (snd deleted))
             in 200 \<le> status (fst deleted) \<and> status (fst deleted) \<le> 399
                \<and> 400 \<le> status res \<and> status res \<le> 499))
         \<and> (let created = service impl (POST ''/people'' P) st;
                 uuid = first_row_uuid (body (fst created));
                 st2 = run (service impl) between (snd created);
                 deleted = service impl (DELETE (''/people/'' @ to_string uuid)) st2;
                 st4 = run (service impl) after (snd deleted);
                 res = fst (service impl (GET (''/people/'' @ to_string uuid)) st4)
             in is_string uuid
                \<and> status (fst created) \<in> {200, 201}
                \<and> (between = [] \<longrightarrow> status (fst deleted) \<in> {200, 204})
                \<and> 400 \<le> status res \<and> status res \<le> 499)"
  using suite_GET_after_delete [of payload srv st0]
    service_deleted_record_stays_unreadable [OF assms, of impl st between after]
  by blast

theorem deleted_record_stays_unreadable_witness:
  "valid_create (makeTitanicPerson [] 1700 42)
   \<and> passes (subsequent_GET_after_delete_with (makeTitanicPerson [] 1700 42)
        (service impl0) empty_store)
   \<and> 400 \<le> status (fst (service impl0 (GET ''/people/00000000-0000-4000-8000-000000000001'')
        (run (service impl0) [POST ''/people'' (makeTitanicPerson [] 1701 43), GET ''/people'']
          (snd (service impl0 (DELETE ''/people/00000000-0000-4000-8000-000000000001'')
            (run (service impl0)
               [PUT ''/people/00000000-0000-4000-8000-000000000001'' (JObj [(''age'', JNum 31)])]
               (snd (service impl0 (POST ''/people'' (makeTitanicPerson [] 1700 42))
                  empty_store))))))))
   \<and> status (fst (service impl0 (GET ''/people/00000000-0000-4000-8000-000000000001'')
        (run (service impl0) [POST ''/people'' (makeTitanicPerson [] 1701 43), GET ''/people'']
          (snd (service impl0 (DELETE ''/people/00000000-0000-4000-8000-000000000001'')
            (run (service impl0)
               [PUT ''/people/00000000-0000-4000-8000-000000000001'' (JObj [(''age'', JNum 31)])]
               (snd (service impl0 (POST ''/people'' (makeTitanicPerson [] 1700 42))
                  empty_store)))))))) \<le> 499"
proof -
  have v: "valid_create (makeTitanicPerson [] 1700 42)"
    by code_simp
  have p: "passes (subsequent_GET_after_delete_with (makeTitanicPerson [] 1700 42)
        (service impl0) empty_store)"
    by code_simp
  have u: "first_row_uuid (body (fst (service impl0 (POST ''/people'' (makeTitanicPerson [] 1700 42))
        empty_store))) = JStr ''00000000-0000-4000-8000-000000000001''"
    by code_simp
  note t = deleted_record_stays_unreadable [OF v,
      of "makeTitanicPerson [] 1700 42" "service impl0" empty_store impl0 empty_store
        "[PUT ''/people/00000000-0000-4000-8000-000000000001'' (JObj [(''age'', JNum 31)])]"
        "[POST ''/people'' (makeTitanicPerson [] 1701 43), GET ''/people'']"]
  show ?thesis
    using v p t [unfolded Let_def u to_string.simps] by simp
qed

text \<open>
  C3. The suite accepts a server exactly if \<^verbatim>\<open>POST /people\<close> with the empty object answers
  200, 400 or 422, and exactly if \<^verbatim>\<open>POST /people\<close> with the payload whose \<open>name\<close> is the
  number 12345 answers 200, 400 or 422; it accepts a server only if \<^verbatim>\<open>PUT /people/{uuid}\<close>
  on the record just created, with the payload whose \<open>name\<close> is the number 999, answers
  200, 400 or 422. A server that passes one of the three tests has not answered its
  request with a 5xx.
\<close>

theorem invalid_bodies_never_5xx:
  "(let s1 = status (fst (srv (POST ''/people'' (JObj [])) st));
        s2 = status (fst (srv
               \<lparr>req_method = ''POST'', req_url = ''/people'',
                req_headers = [(''content-type'', ''application/json'')],
                req_body = makeTitanicPerson [(''name'', JNum 12345)] now rnd\<rparr> st));
        created = srv (POST ''/people'' payload) st;
        s3 = status (fst (srv
               (PUT (''/people/'' @ to_string (first_row_uuid (body (fst created))))
                  (makeTitanicPerson [(''name'', JNum 999)] now rnd))
               (snd created)))
    in (passes (handles_missing_body_gracefully srv st) \<longleftrightarrow> s1 \<in> {200, 400, 422})
       \<and> (passes (handles_invalid_payload_types now rnd srv st) \<longleftrightarrow> s2 \<in> {200, 400, 422})
       \<and> (passes (handles_invalid_update_payload_with payload now rnd srv st) \<longrightarrow>
            s3 \<in> {200, 400, 422})
       \<and> (passes (handles_missing_body_gracefully srv st) \<longrightarrow> \<not> (500 \<le> s1 \<and> s1 \<le> 599))
       \<and> (passes (handles_invalid_payload_types now rnd srv st) \<longrightarrow>
            \<not> (500 \<le> s2 \<and> s2 \<le> 599))
       \<and> (passes (handles_invalid_update_payload_with payload now rnd srv st) \<longrightarrow>
            \<not> (500 \<le> s3 \<and> s3 \<le> 599)))
   \<and> obj_get (makeTitanicPerson [(''name'', JNum 12345)] now rnd) ''name'' = Some (JNum 12345)
   \<and> obj_get (makeTitanicPerson [(''name'', JNum 999)] now rnd) ''name'' = Some (JNum 999)"
proof -
  have a: "passes (handles_missing_body_gracefully srv st) \<longleftrightarrow>
      status (fst (srv (POST ''/people'' (JObj [])) st)) \<in> {200, 400, 422}"
    by (simp add: handles_missing_body_gracefully_def passes_cy_request API_BASE_def)
  have b: "passes (handles_invalid_payload_types now rnd srv st) \<longleftrightarrow>
      status (fst (srv
         \<lparr>req_method = ''POST'', req_url = ''/people'',
          req_headers = [(''content-type'', ''application/json'')],
          req_body = makeTitanicPerson [(''name'', JNum 12345)] now rnd\<rparr> st)) \<in> {200, 400, 422}"
    by (simp add: handles_invalid_payload_types_def passes_cy_request API_BASE_def)
  have c: "passes (handles_invalid_update_payload_with payload now rnd srv st) \<longrightarrow>
      status (fst (srv
         (PUT (''/people/'' @ to_string (first_row_uuid (body (fst (srv (POST ''/people'' payload) st)))))
              (makeTitanicPerson [(''name'', JNum 999)] now rnd))
         (snd (srv (POST ''/people'' payload) st)))) \<in> {200, 400, 422}"
    by (simp add: handles_invalid_update_payload_with_def passes_cy_request API_BASE_def
        person_url_any Let_def)
  have d: "obj_get (makeTitanicPerson [(''name'', JNum 12345)] now rnd) ''name'' = Some (JNum 12345)"
    by (simp add: invalid_name_payload)
  have e: "obj_get (makeTitanicPerson [(''name'', JNum 999)] now rnd) ''name'' = Some (JNum 999)"
    by (simp add: invalid_name_payload)
  have f: "s \<in> {200, 400, 422} \<Longrightarrow> \<not> (500 \<le> s \<and> s \<le> 599)" for s :: nat
    by auto
  from a b c d e show ?thesis
    unfolding Let_def using f by blast
qed

theorem invalid_bodies_never_5xx_witness:
  "passes (handles_missing_body_gracefully (service impl0) empty_store)
   \<and> passes (handles_invalid_payload_types 1700 42 (service impl0) empty_store)
   \<and> passes (handles_invalid_update_payload_with (makeTitanicPerson [] 1699 41) 1700 42
        (service impl0) empty_store)
   \<and> status (fst (service impl0 (POST ''/people'' (JObj [])) empty_store)) \<in> {200, 400, 422}
   \<and> status (fst (service impl0
         (PUT (''/people/'' @ to_string (first_row_uuid (body (fst
                 (service impl0 (POST ''/people'' (makeTitanicPerson [] 1699 41)) empty_store)))))
              (makeTitanicPerson [(''name'', JNum 999)] 1700 42))
         (snd (service impl0 (POST ''/people'' (makeTitanicPerson [] 1699 41)) empty_store))))
       \<in> {200, 400, 422}"
proof -
  have p1: "passes (handles_missing_body_gracefully (service impl0) empty_store)"
    by code_simp
  have p2: "passes (handles_invalid_payload_types 1700 42 (service impl0) empty_store)"
    by code_simp
  have p3: "passes (handles_invalid_update_payload_with (makeTitanicPerson [] 1699 41) 1700 42
        (service impl0) empty_store)"
    by code_simp
  note t = invalid_bodies_never_5xx
    [of "service impl0" empty_store 1700 42 "makeTitanicPerson [] 1699 41", unfolded Let_def]
  from t p1 have c1: "status (fst (service impl0 (POST ''/people'' (JObj [])) empty_store))
      \<in> {200, 400, 422}"
    by blast
  from t p3 have c3: "status (fst (service impl0
         (PUT (''/people/'' @ to_string (first_row_uuid (body (fst
                 (service impl0 (POST ''/people'' (makeTitanicPerson [] 1699 41)) empty_store)))))
              (makeTitanicPerson [(''name'', JNum 999)] 1700 42))
         (snd (service impl0 (POST ''/people'' (makeTitanicPerson [] 1699 41)) empty_store))))
       \<in> {200, 400, 422}"
    by blast
  from p1 p2 p3 c1 c3 show ?thesis by blast
qed




text \<open>
  C5. The suite accepts a server exactly if \<^verbatim>\<open>DELETE\<close> of the nil UUID answers 200, 204
  or 404; a server it accepts does not answer with a 5xx.
\<close>

theorem delete_nil_uuid_status:
  "(passes (deleting_a_non_existing_uuid srv st) \<longleftrightarrow>
      status (fst (srv (DELETE ''/people/00000000-0000-0000-0000-000000000000'') st))
        \<in> {200, 204, 404})
   \<and> (passes (deleting_a_non_existing_uuid srv st) \<longrightarrow>
      \<not> (500 \<le> status (fst (srv (DELETE ''/people/00000000-0000-0000-0000-000000000000'') st))
         \<and> status (fst (srv (DELETE ''/people/00000000-0000-0000-0000-000000000000'') st)) \<le> 599))"
  by (auto simp: deleting_a_non_existing_uuid_def passes_cy_request API_BASE_def nil_uuid_def)

theorem delete_nil_uuid_status_witness:
  "passes (deleting_a_non_existing_uuid (service impl0) empty_store)
   \<and> status (fst (service impl0 (DELETE ''/people/00000000-0000-0000-0000-000000000000'')
        empty_store)) \<in> {200, 204, 404}"
proof -
  have p: "passes (deleting_a_non_existing_uuid (service impl0) empty_store)"
    by code_simp
  from delete_nil_uuid_status [of "service impl0" empty_store] p show ?thesis by blast
qed

text \<open>
  C6. The test of the suite accepts a server only if \<^verbatim>\<open>GET /people\<close> answers 200 with a
  body that has a \<open>rows\<close> array. On the modelled service, \<^verbatim>\<open>GET /people\<close> against a store
  with no person record answers 200 with the JSON content type and a body whose \<open>rows\<close> is
  the empty array.
\<close>

theorem list_of_empty_store:
  assumes "people st = []"
  shows "(passes (returns_an_array_response srv st0) \<longrightarrow>
            status (fst (srv (GET ''/people'') st0)) = 200
            \<and> (\<exists>fs rs. body (fst (srv (GET ''/people'') st0)) = JObj fs
                  \<and> map_of fs ''rows'' = Some (JArr rs)))
         \<and> status (fst (service impl (GET ''/people'') st)) = 200
         \<and> get_prop (body (fst (service impl (GET ''/people'') st))) ''rows'' = JArr []
         \<and> rows (body (fst (service impl (GET ''/people'') st))) = []
         \<and> passes (assertPgResultShape (body (fst (service impl (GET ''/people'') st))))
         \<and> passes (content_type_is_json (fst (service impl (GET ''/people'') st)))"
  using suite_list [of srv st0] service_list_of_empty_store [OF assms, of impl]
  by blast

theorem list_of_empty_store_witness:
  "people (snd (service impl0 (DELETE ''/people/00000000-0000-4000-8000-000000000001'')
      (snd (service impl0 (POST ''/people'' (makeTitanicPerson [] 1700 42)) empty_store)))) = []
   \<and> status (fst (service impl0 (GET ''/people'')
        (snd (service impl0 (DELETE ''/people/00000000-0000-4000-8000-000000000001'')
          (snd (service impl0 (POST ''/people'' (makeTitanicPerson [] 1700 42)) empty_store))))))
       = 200
   \<and> rows (body (fst (service impl0 (GET ''/people'')
        (snd (service impl0 (DELETE ''/people/00000000-0000-4000-8000-000000000001'')
          (snd (service impl0 (POST ''/people'' (makeTitanicPerson [] 1700 42)) empty_store)))))))
       = []"
proof -
  have e: "people (snd (service impl0 (DELETE ''/people/00000000-0000-4000-8000-000000000001'')
      (snd (service impl0 (POST ''/people'' (makeTitanicPerson [] 1700 42)) empty_store)))) = []"
    by code_simp
  from e list_of_empty_store [OF e, of "service impl0" empty_store impl0]
  show ?thesis by blast
qed

text \<open>
  C7. The test of the suite accepts a server only if \<^verbatim>\<open>PUT /people/{uuid}\<close> on the record
  it has created answers 200 with a content type that includes \<open>application/json\<close>. On the
  modelled service, for every record created by a \<^verbatim>\<open>POST\<close> of a well-typed payload and
  still present, \<^verbatim>\<open>PUT /people/{uuid}\<close> with a well-typed full body answers 200 with the
  JSON content type and leaves the identifiers of the store as they were: the record is
  read afterwards under the same \<open>uuid\<close>, and the row returned carries that \<open>uuid\<close>.
\<close>

theorem update_keeps_identifier:
  assumes "valid_create P" and "valid_create P'"
  shows "(passes (updates_an_existing_person_and_returns_200_with payload updated srv st0) \<longrightarrow>
            (let created = srv (POST ''/people'' payload) st0;
                 uuid = first_row_uuid (body (fst created));
                 res = fst (srv (PUT (''/people/'' @ to_string uuid) updated) (snd created))
             in status res = 200 \<and> passes (content_type_is_json res)))
         \<and> (let created = service impl (POST ''/people'' P) st;
                 uuid = first_row_uuid (body (fst created));
                 st2 = run (service impl) between (snd created);
                 updated = service impl (PUT (''/people/'' @ to_string uuid) P') st2;
                 res = fst (service impl (GET (''/people/'' @ to_string uuid)) (snd updated))
             in is_string uuid
                \<and> (to_string uuid \<in> fst ` set (people st2) \<longrightarrow>
                     status (fst updated) = 200
                     \<and> passes (content_type_is_json (fst updated))
                     \<and> map fst (people (snd updated)) = map fst (people st2)
                     \<and> status res = 200
                     \<and> first_row_uuid (body res) = uuid))"
  using suite_update [of payload updated srv st0]
    service_update_keeps_identifier [OF assms, of impl st between]
  by blast

theorem update_keeps_identifier_witness:
  "valid_create (makeTitanicPerson [] 1700 42)
   \<and> valid_create (makeTitanicPerson [(''name'', JStr (uniqueName ''put-updated'' 1701 43))] 1701 43)
   \<and> ''00000000-0000-4000-8000-000000000001'' \<in> fst ` set (people
        (run (service impl0) [POST ''/people'' (makeTitanicPerson [] 1702 44)]
           (snd (service impl0 (POST ''/people'' (makeTitanicPerson [] 1700 42)) empty_store))))
   \<and> status (fst (service impl0
        (PUT ''/people/00000000-0000-4000-8000-000000000001''
           (makeTitanicPerson [(''name'', JStr (uniqueName ''put-updated'' 1701 43))] 1701 43))
        (run (service impl0) [POST ''/people'' (makeTitanicPerson [] 1702 44)]
           (snd (service impl0 (POST ''/people'' (makeTitanicPerson [] 1700 42)) empty_store)))))
       = 200
   \<and> map fst (people (snd (service impl0
        (PUT ''/people/00000000-0000-4000-8000-000000000001''
           (makeTitanicPerson [(''name'', JStr (uniqueName ''put-updated'' 1701 43))] 1701 43))
        (run (service impl0) [POST ''/people'' (makeTitanicPerson [] 1702 44)]
           (snd (service impl0 (POST ''/people'' (makeTitanicPerson [] 1700 42)) empty_store))))))
       = map fst (people
        (run (service impl0) [POST ''/people'' (makeTitanicPerson [] 1702 44)]
           (snd (service impl0 (POST ''/people'' (makeTitanicPerson [] 1700 42)) empty_store))))"
proof -
  have v: "valid_create (makeTitanicPerson [] 1700 42)"
    by code_simp
  have v': "valid_create
      (makeTitanicPerson [(''name'', JStr (uniqueName ''put-updated'' 1701 43))] 1701 43)"
    by code_simp
  have u: "first_row_uuid (body (fst (service impl0 (POST ''/people'' (makeTitanicPerson [] 1700 42))
        empty_store))) = JStr ''00000000-0000-4000-8000-000000000001''"
    by code_simp
  have m: "''00000000-0000-4000-8000-000000000001'' \<in> fst ` set (people
        (run (service impl0) [POST ''/people'' (makeTitanicPerson [] 1702 44)]
           (snd (service impl0 (POST ''/people'' (makeTitanicPerson [] 1700 42)) empty_store))))"
    by code_simp
  note t = update_keeps_identifier [OF v v',
      of "makeTitanicPerson [] 1700 42" "makeTitanicPerson [] 1700 42" "service impl0"
        empty_store impl0 empty_store "[POST ''/people'' (makeTitanicPerson [] 1702 44)]"]
  show ?thesis
    using v v' m t [unfolded Let_def u to_string.simps] by simp
qed

text \<open>
  C8. \<open>assertPgResultShape\<close> accepts a body exactly if it is an object whose \<open>rows\<close> is an
  array; the empty array is accepted and no other field is looked at. The suite accepts a
  server only if the body of \<^verbatim>\<open>GET /people\<close>, the body of the \<^verbatim>\<open>POST /people\<close> that
  creates, and the bodies of the creation and of the \<^verbatim>\<open>GET /people/{uuid}\<close> that follows
  have this shape, and the body of the \<^verbatim>\<open>PUT /people/{uuid}\<close> has it whenever that body is
  truthy. A \<^verbatim>\<open>PUT\<close> body that is falsy and not \<^verbatim>\<open>null\<close> (\<^verbatim>\<open>false\<close>, \<^verbatim>\<open>0\<close>, the empty
  string) is not held to the shape: the server \<open>false_update_server\<close> passes the update
  test with the body \<^verbatim>\<open>false\<close>.
\<close>

theorem envelope_required_of_result_bodies:
  "(passes (assertPgResultShape b) \<longleftrightarrow>
      (\<exists>fs rs. b = JObj fs \<and> map_of fs ''rows'' = Some (JArr rs)))
   \<and> passes (assertPgResultShape (JObj [(''rows'', JArr [])]))
   \<and> (passes (returns_an_array_response srv st) \<longrightarrow>
        passes (assertPgResultShape (body (fst (srv (GET ''/people'') st)))))
   \<and> (passes (creates_a_person_and_returns_inserted_rows_with payload srv st) \<longrightarrow>
        passes (assertPgResultShape (body (fst (srv (POST ''/people'' payload) st)))))
   \<and> (passes (returns_200_for_an_existing_uuid_with payload srv st) \<longrightarrow>
        passes (assertPgResultShape (body (fst (srv (POST ''/people'' payload) st))))
        \<and> passes (assertPgResultShape (body (fst (srv
              (GET (''/people/'' @ to_string (first_row_uuid (body (fst (srv (POST ''/people'' payload) st))))))
              (snd (srv (POST ''/people'' payload) st)))))))
   \<and> (passes (updates_an_existing_person_and_returns_200_with payload updated srv st)
        \<and> truthy (body (fst (srv
              (PUT (''/people/'' @ to_string (first_row_uuid (body (fst (srv (POST ''/people'' payload) st)))))
                 updated)
              (snd (srv (POST ''/people'' payload) st))))) \<longrightarrow>
        passes (assertPgResultShape (body (fst (srv
              (PUT (''/people/'' @ to_string (first_row_uuid (body (fst (srv (POST ''/people'' payload) st)))))
                 updated)
              (snd (srv (POST ''/people'' payload) st)))))))"
proof -
  have a: "passes (assertPgResultShape b) \<longleftrightarrow>
      (\<exists>fs rs. b = JObj fs \<and> map_of fs ''rows'' = Some (JArr rs))"
    by (rule passes_assertPgResultShape)
  have b: "passes (assertPgResultShape (JObj [(''rows'', JArr [])]))"
    by (simp add: passes_assertPgResultShape)
  have c: "passes (returns_an_array_response srv st) \<longrightarrow>
        passes (assertPgResultShape (body (fst (srv (GET ''/people'') st))))"
    by (simp add: returns_an_array_response_def passes_cy_request API_BASE_def)
  have d: "passes (creates_a_person_and_returns_inserted_rows_with payload srv st) \<longrightarrow>
        passes (assertPgResultShape (body (fst (srv (POST ''/people'' payload) st))))"
    by (simp add: creates_a_person_and_returns_inserted_rows_with_def passes_cy_request
        API_BASE_def)
  have e: "passes (returns_200_for_an_existing_uuid_with payload srv st) \<longrightarrow>
        passes (assertPgResultShape (body (fst (srv (POST ''/people'' payload) st))))
        \<and> passes (assertPgResultShape (body (fst (srv
              (GET (''/people/'' @ to_string (first_row_uuid (body (fst (srv (POST ''/people'' payload) st))))))
              (snd (srv (POST ''/people'' payload) st))))))"
    by (simp add: returns_200_for_an_existing_uuid_with_def passes_cy_request API_BASE_def
        Let_def person_url_def)
  have f: "passes (updates_an_existing_person_and_returns_200_with payload updated srv st)
        \<and> truthy (body (fst (srv
              (PUT (''/people/'' @ to_string (first_row_uuid (body (fst (srv (POST ''/people'' payload) st)))))
                 updated)
              (snd (srv (POST ''/people'' payload) st))))) \<longrightarrow>
        passes (assertPgResultShape (body (fst (srv
              (PUT (''/people/'' @ to_string (first_row_uuid (body (fst (srv (POST ''/people'' payload) st)))))
                 updated)
              (snd (srv (POST ''/people'' payload) st))))))"
    by (simp add: updates_an_existing_person_and_returns_200_with_def passes_cy_request
        API_BASE_def Let_def person_url_def)
  from a b c d e f show ?thesis by blast
qed

theorem envelope_required_of_result_bodies_witness:
  "passes (updates_an_existing_person_and_returns_200_with (makeTitanicPerson [] 1700 42)
      (makeTitanicPerson [(''name'', JStr (uniqueName ''put-updated'' 1701 43))] 1701 43)
      (service impl0) empty_store)
   \<and> truthy (body (fst (service impl0
        (PUT (''/people/'' @ to_string (first_row_uuid (body (fst
                (service impl0 (POST ''/people'' (makeTitanicPerson [] 1700 42)) empty_store)))))
           (makeTitanicPerson [(''name'', JStr (uniqueName ''put-updated'' 1701 43))] 1701 43))
        (snd (service impl0 (POST ''/people'' (makeTitanicPerson [] 1700 42)) empty_store)))))
   \<and> passes (assertPgResultShape (body (fst (service impl0
        (PUT (''/people/'' @ to_string (first_row_uuid (body (fst
                (service impl0 (POST ''/people'' (makeTitanicPerson [] 1700 42)) empty_store)))))
           (makeTitanicPerson [(''name'', JStr (uniqueName ''put-updated'' 1701 43))] 1701 43))
        (snd (service impl0 (POST ''/people'' (makeTitanicPerson [] 1700 42)) empty_store))))))"
proof -
  have p: "passes (updates_an_existing_person_and_returns_200_with (makeTitanicPerson [] 1700 42)
      (makeTitanicPerson [(''name'', JStr (uniqueName ''put-updated'' 1701 43))] 1701 43)
      (service impl0) empty_store)"
    by code_simp
  have q: "truthy (body (fst (service impl0
        (PUT (''/people/'' @ to_string (first_row_uuid (body (fst
                (service impl0 (POST ''/people'' (makeTitanicPerson [] 1700 42)) empty_store)))))
           (makeTitanicPerson [(''name'', JStr (uniqueName ''put-updated'' 1701 43))] 1701 43))
        (snd (service impl0 (POST ''/people'' (makeTitanicPerson [] 1700 42)) empty_store)))))"
    by code_simp
  note t = envelope_required_of_result_bodies
    [of JNull "service impl0" empty_store "makeTitanicPerson [] 1700 42"
      "makeTitanicPerson [(''name'', JStr (uniqueName ''put-updated'' 1701 43))] 1701 43"]
  from t p q show ?thesis by blast
qed

theorem non_null_update_body_counterexample:
  "passes (updates_an_existing_person_and_returns_200 1700 42 1701 43 false_update_server ())
   \<and> body (fst (false_update_server
        (PUT ''/people/7d444840-9dc0-11d1-b245-5ffdce74fad2''
           (makeTitanicPerson [(''name'', JStr (uniqueName ''put-updated'' 1701 43))] 1701 43)) ()))
       = JBool False
   \<and> JBool False \<noteq> JNull
   \<and> \<not> passes (assertPgResultShape (JBool False))"
  by code_simp

text \<open>
  C9. The configuration retries a failed test once under \<open>cypress run\<close> and never under
  \<open>cypress open\<close>; the two numbers are entries of the runner's configuration object.
\<close>

theorem config_retries:
  "retry_limit config Run = 1 \<and> retry_limit config Open = 0
   \<and> retries (e2e config) = \<lparr>runMode = 1, openMode = 0\<rparr>"
  by (simp add: config_def)

text \<open>
  C10. For every overrides object (a property list with distinct keys), the object
  \<open>makeTitanicPerson\<close> returns has, at every key the overrides name, the value the overrides
  give, and at every other key the default: survived 1, pclass 3, sex \<open>male\<close>, age 30,
  siblings_spouses_abroad 0, parents_children_abroad 0, fare 7.25 and the name
  \<open>uniqueName('person')\<close>, which starts with \<open>person-\<close>; no other key is present. With the
  overrides \<open>{name: 12345}\<close> the name of the payload is the number 12345.
\<close>

theorem makeTitanicPerson_overrides:
  assumes "distinct (map fst ov)"
  shows "obj_get (makeTitanicPerson ov now rnd) k =
           (case map_of ov k of
              Some v \<Rightarrow> Some v
            | None \<Rightarrow>
                (if k = ''survived'' then Some (JNum 1)
                 else if k = ''pclass'' then Some (JNum 3)
                 else if k = ''name'' then Some (JStr (uniqueName ''person'' now rnd))
                 else if k = ''sex'' then Some (JStr ''male'')
                 else if k = ''age'' then Some (JNum 30)
                 else if k = ''siblings_spouses_abroad'' then Some (JNum 0)
                 else if k = ''parents_children_abroad'' then Some (JNum 0)
                 else if k = ''fare'' then Some (JNum 7.25)
                 else None))
         \<and> (\<exists>rest. uniqueName ''person'' now rnd = ''person-'' @ rest)
         \<and> obj_get (makeTitanicPerson [(''name'', JNum 12345)] now rnd) ''name''
             = Some (JNum 12345)"
proof -
  have m: "map_of (rev ov) = map_of ov"
    using assms by (rule map_of_rev_distinct)
  have "obj_get (makeTitanicPerson ov now rnd) k =
           (case map_of ov k of
              Some v \<Rightarrow> Some v
            | None \<Rightarrow>
                (if k = ''survived'' then Some (JNum 1)
                 else if k = ''pclass'' then Some (JNum 3)
                 else if k = ''name'' then Some (JStr (uniqueName ''person'' now rnd))
                 else if k = ''sex'' then Some (JStr ''male'')
                 else if k = ''age'' then Some (JNum 30)
                 else if k = ''siblings_spouses_abroad'' then Some (JNum 0)
                 else if k = ''parents_children_abroad'' then Some (JNum 0)
                 else if k = ''fare'' then Some (JNum 7.25)
                 else None))"
    unfolding obj_get_makeTitanicPerson m
    by (cases "map_of ov k") (simp_all only: option.case map_of.simps fun_upd_apply fst_conv snd_conv)
  moreover have "\<exists>rest. uniqueName ''person'' now rnd = ''person-'' @ rest"
    by (simp add: uniqueName_def)
  moreover have "obj_get (makeTitanicPerson [(''name'', JNum 12345)] now rnd) ''name''
      = Some (JNum 12345)"
    unfolding obj_get_makeTitanicPerson by simp
  ultimately show ?thesis by blast
qed

theorem makeTitanicPerson_overrides_witness:
  "distinct (map fst [(''name'', JNum 12345), (''age'', JNum 41)])
   \<and> obj_get (makeTitanicPerson [(''name'', JNum 12345), (''age'', JNum 41)] 1700000000000 42) ''name''
       = Some (JNum 12345)
   \<and> obj_get (makeTitanicPerson [(''name'', JNum 12345), (''age'', JNum 41)] 1700000000000 42) ''fare''
       = Some (JNum 7.25)"
proof -
  have d: "distinct (map fst [(''name'', JNum 12345), (''age'', JNum 41)])"
    by simp
  have n: "obj_get (makeTitanicPerson [(''name'', JNum 12345), (''age'', JNum 41)] 1700000000000 42) ''name''
       = Some (JNum 12345)"
    using makeTitanicPerson_overrides [OF d, of 1700000000000 42 "''name''"] by simp
  have f: "obj_get (makeTitanicPerson [(''name'', JNum 12345), (''age'', JNum 41)] 1700000000000 42) ''fare''
       = Some (JNum 7.25)"
    using makeTitanicPerson_overrides [OF d, of 1700000000000 42 "''fare''"] by simp
  show ?thesis using d n f by blast
qed

end
